theory Spec2Isabelle
  imports Complex_Main
begin

section \<open>Data frames\<close>

text \<open>
  The dashboard (\<^verbatim>\<open>app.py\<close>, the uncommented script at the top of the file) keeps three
  pandas data frames. A frame is modelled column by column, as pandas stores it: every
  column has a name, a dtype and its cells in row order. A cell is an integer, a float
  (a finite float64 is carried as the real number it denotes; no arithmetic is done on
  it here), a string, or the missing-value marker \<open>NaN\<close>.
\<close>

datatype dtype = Int64 | Float64 | Object

datatype cell = IntV int | FloatV real | StrV string | NaN

record column =
  cname :: string
  ctype :: dtype
  cells :: "cell list"

type_synonym dataframe = "column list"

text \<open>The exceptions the script can raise. \<open>KeyError k\<close> is the lookup of the absent column
  \<open>k\<close> (for a list of names, the first absent one); \<open>KeyError_None\<close> is the lookup of
  \<^verbatim>\<open>None\<close> in a frame.\<close>

datatype error = KeyError string | KeyError_None | ValueError | TypeError | IndexError

text \<open>\<^verbatim>\<open>df.columns\<close>: the column names, in order.\<close>

definition columns :: "dataframe \<Rightarrow> string list" where
  "columns df = map cname df"

text \<open>\<^verbatim>\<open>df[k]\<close> for a column name: raises \<open>KeyError\<close> when the column is absent.\<close>

fun getitem :: "dataframe \<Rightarrow> string \<Rightarrow> error + column" where
  "getitem [] k = Inl (KeyError k)"
| "getitem (c # df) k = (if cname c = k then Inr c else getitem df k)"

text \<open>\<^verbatim>\<open>df[ks]\<close> for a list (or Index) of names: the named columns in the order asked
  for; \<open>KeyError\<close> when one is absent.\<close>

fun getitem_list :: "dataframe \<Rightarrow> string list \<Rightarrow> error + dataframe" where
  "getitem_list df [] = Inr []"
| "getitem_list df (k # ks) =
     (case getitem df k of
        Inl e \<Rightarrow> Inl e
      | Inr c \<Rightarrow> (case getitem_list df ks of Inl e \<Rightarrow> Inl e | Inr cs \<Rightarrow> Inr (c # cs)))"

text \<open>\<^verbatim>\<open>df[col] == v\<close>: the row mask. The value comes from a dropdown: a string, or
  \<open>None\<close> when the dropdown is cleared; a cell equals it only if it is that very
  string.\<close>

definition eq_mask :: "column \<Rightarrow> string option \<Rightarrow> bool list" where
  "eq_mask c v = map (\<lambda>x. case v of None \<Rightarrow> False | Some s \<Rightarrow> x = StrV s) (cells c)"

definition take_mask :: "bool list \<Rightarrow> 'a list \<Rightarrow> 'a list" where
  "take_mask m xs = map snd (filter fst (zip m xs))"

text \<open>\<^verbatim>\<open>df[mask]\<close>: the rows where the mask holds, in every column.\<close>

definition getitem_mask :: "dataframe \<Rightarrow> bool list \<Rightarrow> dataframe" where
  "getitem_mask df m = map (\<lambda>c. c\<lparr>cells := take_mask m (cells c)\<rparr>) df"

section \<open>Loading\<close>

text \<open>\<^verbatim>\<open>df.fillna(v, inplace=True)\<close>: every missing cell of every column becomes \<open>v\<close>
  (as a float in a float64 column); names and dtypes stay.\<close>

definition fill_value :: "int \<Rightarrow> dtype \<Rightarrow> cell" where
  "fill_value v t = (if t = Float64 then FloatV (of_int v) else IntV v)"

definition fillna_column :: "int \<Rightarrow> column \<Rightarrow> column" where
  "fillna_column v c =
     c\<lparr>cells := map (\<lambda>x. if x = NaN then fill_value v (ctype c) else x) (cells c)\<rparr>"

definition fillna :: "int \<Rightarrow> dataframe \<Rightarrow> dataframe" where
  "fillna v df = map (fillna_column v) df"

text \<open>\<^verbatim>\<open>df.select_dtypes(include=['float64', 'int64'])\<close>.\<close>

definition select_dtypes :: "dataframe \<Rightarrow> dataframe" where
  "select_dtypes df = filter (\<lambda>c. ctype c = Float64 \<or> ctype c = Int64) df"

text \<open>The module-level state after the three \<^verbatim>\<open>read_csv\<close> calls, the three
  \<^verbatim>\<open>fillna(0, inplace=True)\<close> calls and the three numeric projections.\<close>

record store =
  vehicle_registration_df :: dataframe
  public_transport_df :: dataframe
  bicycle_network_df :: dataframe
  vehicle_registration_numeric :: dataframe
  public_transport_numeric :: dataframe
  bicycle_network_numeric :: dataframe

definition load :: "dataframe \<Rightarrow> dataframe \<Rightarrow> dataframe \<Rightarrow> store" where
  "load v t b =
     \<lparr>vehicle_registration_df = fillna 0 v,
      public_transport_df = fillna 0 t,
      bicycle_network_df = fillna 0 b,
      vehicle_registration_numeric = select_dtypes (fillna 0 v),
      public_transport_numeric = select_dtypes (fillna 0 t),
      bicycle_network_numeric = select_dtypes (fillna 0 b)\<rparr>"

text \<open>\<^verbatim>\<open>Series.unique()\<close>: the distinct values in order of first appearance.\<close>

definition unique :: "cell list \<Rightarrow> cell list" where
  "unique xs = rev (remdups (rev xs))"

text \<open>The options of the vehicle-type dropdown, built while the layout is declared:
  \<^verbatim>\<open>vehicle_registration_df['CD_CL_FUEL_ENG'].unique()\<close>, one option per value.\<close>

definition vehicle_type_options :: "dataframe \<Rightarrow> error + (cell \<times> cell) list" where
  "vehicle_type_options vdf =
     (case getitem vdf ''CD_CL_FUEL_ENG'' of
        Inl e \<Rightarrow> Inl e
      | Inr c \<Rightarrow> Inr (map (\<lambda>x. (x, x)) (unique (cells c))))"

text \<open>Running the module: the tables are loaded, then the layout is declared. When the
  layout cannot be declared the script stops and no callback is ever called.\<close>

definition startup :: "dataframe \<Rightarrow> dataframe \<Rightarrow> dataframe \<Rightarrow> error + store" where
  "startup v t b =
     (case vehicle_type_options (vehicle_registration_df (load v t b)) of
        Inl e \<Rightarrow> Inl e
      | Inr opts \<Rightarrow> Inr (load v t b))"

section \<open>Figures\<close>

text \<open>
  A figure is what a callback returns: one trace and the layout attributes the script
  sets.
\<close>

text \<open>The colour scales the selector offers; each is a named plotly scale.\<close>

datatype colorscale = Viridis | Cividis | Bluered | RdBu

text \<open>A correlation matrix: its entries row by row (an undefined entry, pandas' NaN, is
  \<open>None\<close>) and its column and row labels.\<close>

record corr_matrix =
  corr_values :: "real option list list"
  corr_columns :: "string list"
  corr_index :: "string list"

datatype trace =
    Scatter "cell list" "cell list"
  | Bar "cell list" "cell list"
  | Scattermapbox "cell list" "cell list" "cell list" "cell list list"
  | Heatmap "real option list list" "string list" "string list" "colorscale option" bool

record figure =
  fig_data :: trace
  fig_title :: "string option"
  xaxis_title :: "string option"
  yaxis_title :: "string option"
  fig_layout :: "(string \<times> string) list"

text \<open>Number of marks a trace draws.\<close>

fun trace_size :: "trace \<Rightarrow> nat" where
  "trace_size (Scatter xs ys) = length xs"
| "trace_size (Bar xs ys) = length xs"
| "trace_size (Scattermapbox la lo hn cd) = length la"
| "trace_size (Heatmap z x y cs sh) = length x * length y"

text \<open>A plotly express call with a title and no data: the placeholder figure.\<close>

definition px_blank :: "trace \<Rightarrow> string \<Rightarrow> figure" where
  "px_blank t s =
     \<lparr>fig_data = t, fig_title = Some s, xaxis_title = None, yaxis_title = None,
      fig_layout = []\<rparr>"

text \<open>A plotly express argument naming a column: \<open>ValueError\<close> when the frame has no
  such column.\<close>

definition px_column :: "dataframe \<Rightarrow> string \<Rightarrow> error + column" where
  "px_column df k = (case getitem df k of Inl e \<Rightarrow> Inl ValueError | Inr c \<Rightarrow> Inr c)"

fun px_columns :: "dataframe \<Rightarrow> string list \<Rightarrow> error + column list" where
  "px_columns df [] = Inr []"
| "px_columns df (k # ks) =
     (case px_column df k of
        Inl e \<Rightarrow> Inl e
      | Inr c \<Rightarrow> (case px_columns df ks of Inl e \<Rightarrow> Inl e | Inr cs \<Rightarrow> Inr (c # cs)))"

text \<open>\<^verbatim>\<open>px.line(df, x=.., y=.., title=..)\<close>: one point per row, in row order.\<close>

definition px_line :: "dataframe \<Rightarrow> string \<Rightarrow> string \<Rightarrow> string \<Rightarrow> error + figure" where
  "px_line df x y s =
     (case px_column df x of
        Inl e \<Rightarrow> Inl e
      | Inr cx \<Rightarrow>
          (case px_column df y of
             Inl e \<Rightarrow> Inl e
           | Inr cy \<Rightarrow>
               Inr \<lparr>fig_data = Scatter (cells cx) (cells cy), fig_title = Some s,
                    xaxis_title = Some x, yaxis_title = Some y, fig_layout = []\<rparr>))"

text \<open>\<^verbatim>\<open>px.bar(df, x=.., y=.., title=.., color_discrete_sequence=.., labels=..)\<close>: one
  bar mark per row, in row order, at the row's \<open>x\<close> with the row's \<open>y\<close>; plotly express
  does not group or sum.\<close>

definition px_bar ::
  "dataframe \<Rightarrow> string \<Rightarrow> string \<Rightarrow> string \<Rightarrow> string \<Rightarrow> string \<Rightarrow> string \<Rightarrow> error + figure" where
  "px_bar df x y s colour xlabel ylabel =
     (case px_column df x of
        Inl e \<Rightarrow> Inl e
      | Inr cx \<Rightarrow>
          (case px_column df y of
             Inl e \<Rightarrow> Inl e
           | Inr cy \<Rightarrow>
               Inr \<lparr>fig_data = Bar (cells cx) (cells cy), fig_title = Some s,
                    xaxis_title = Some xlabel, yaxis_title = Some ylabel,
                    fig_layout = [(''marker_color'', colour)]\<rparr>))"

text \<open>A cell that takes part in arithmetic: a number, or a missing value (which the mean
  skips); a string does not.\<close>

definition numeric_cell :: "cell \<Rightarrow> bool" where
  "numeric_cell x = (case x of StrV s \<Rightarrow> False | _ \<Rightarrow> True)"

definition numeric_column :: "column \<Rightarrow> bool" where
  "numeric_column c = list_all numeric_cell (cells c)"

text \<open>\<^verbatim>\<open>px.scatter_mapbox(df, lat=.., lon=.., hover_name=.., hover_data=[..], zoom=10,
  height=500)\<close>: one point per row. Every named column must exist (\<open>ValueError\<close>); the map is
  then centred on the mean latitude and the mean longitude, which raises \<open>TypeError\<close> on a
  column holding a string. The centre itself, a float, is not recorded in the figure.\<close>

definition px_scatter_mapbox ::
  "dataframe \<Rightarrow> string \<Rightarrow> string \<Rightarrow> string \<Rightarrow> string list \<Rightarrow> error + figure" where
  "px_scatter_mapbox df lat lon hover_name hover_data =
     (case px_column df lat of
        Inl e \<Rightarrow> Inl e
      | Inr cla \<Rightarrow>
          (case px_column df lon of
             Inl e \<Rightarrow> Inl e
           | Inr clo \<Rightarrow>
               (case px_column df hover_name of
                  Inl e \<Rightarrow> Inl e
                | Inr chn \<Rightarrow>
                    (case px_columns df hover_data of
                       Inl e \<Rightarrow> Inl e
                     | Inr chd \<Rightarrow>
                         (if \<not> numeric_column cla then Inl TypeError
                          else if \<not> numeric_column clo then Inl TypeError
                          else
                            Inr \<lparr>fig_data = Scattermapbox (cells cla) (cells clo) (cells chn)
                                             (map cells chd),
                                 fig_title = None, xaxis_title = None, yaxis_title = None,
                                 fig_layout = [(''zoom'', ''10''), (''height'', ''500'')]\<rparr>)))))"

text \<open>\<^verbatim>\<open>px.scatter_mapbox(title=..)\<close>, with no frame and no column names: centring the map
  looks the latitude name \<^verbatim>\<open>None\<close> up in the empty frame, which raises.\<close>

definition px_scatter_mapbox_title :: "string \<Rightarrow> error + figure" where
  "px_scatter_mapbox_title s = Inl KeyError_None"

text \<open>\<^verbatim>\<open>fig.update_layout(...)\<close> as the script uses it.\<close>

definition update_axis_titles :: "figure \<Rightarrow> string \<Rightarrow> string \<Rightarrow> figure" where
  "update_axis_titles fig x y = fig\<lparr>xaxis_title := Some x, yaxis_title := Some y\<rparr>"

definition update_layout :: "figure \<Rightarrow> (string \<times> string) list \<Rightarrow> figure" where
  "update_layout fig kvs = fig\<lparr>fig_layout := fig_layout fig @ kvs\<rparr>"

text \<open>The number a cell stands for.\<close>

definition num_of :: "cell \<Rightarrow> real" where
  "num_of x = (case x of IntV i \<Rightarrow> of_int i | FloatV r \<Rightarrow> r | _ \<Rightarrow> 0)"

text \<open>
  The script asks pandas for the correlation matrix (\<^verbatim>\<open>DataFrame.corr\<close>); pandas is not part
  of the repository. The specification asks for the Pearson correlation coefficient of
  every pair of selected columns, with an undefined coefficient (a constant column,
  division by zero) reported as NaN. The definitions below follow these words, in exact
  arithmetic.
\<close>

text \<open>Modelled from the spec: the arithmetic mean used by the Pearson coefficient of
  \<^verbatim>\<open>DataFrame.corr\<close>, which is not in the repository.\<close>

definition mean :: "real list \<Rightarrow> real" where
  "mean xs = sum_list xs / real (length xs)"

text \<open>Modelled from the spec: the sum of squared deviations from the mean, for the Pearson
  coefficient of \<^verbatim>\<open>DataFrame.corr\<close>, which is not in the repository.\<close>

definition ssq :: "real list \<Rightarrow> real" where
  "ssq xs = sum_list (map (\<lambda>x. (x - mean xs) * (x - mean xs)) xs)"

text \<open>Modelled from the spec: the sum of the products of the two deviations, for the
  Pearson coefficient of \<^verbatim>\<open>DataFrame.corr\<close>, which is not in the repository.\<close>

definition scov :: "(real \<times> real) list \<Rightarrow> real" where
  "scov ps =
     sum_list (map (\<lambda>p. (fst p - mean (map fst ps)) * (snd p - mean (map snd ps))) ps)"

text \<open>Modelled from the spec: the Pearson correlation coefficient of a list of pairs, as
  \<^verbatim>\<open>DataFrame.corr\<close> (not in the repository) computes it: the sum of the products of the
  deviations divided by the square root of the product of the two sums of squared
  deviations; when that divisor is zero the coefficient is undefined (NaN), here
  \<open>None\<close>.\<close>

definition pearson :: "(real \<times> real) list \<Rightarrow> real option" where
  "pearson ps =
     (let d = sqrt (ssq (map fst ps) * ssq (map snd ps))
      in if d = 0 then None else Some (scov ps / d))"

text \<open>Modelled from the spec: the observations \<^verbatim>\<open>DataFrame.corr\<close> (not in the repository)
  correlates for two columns: the rows in which both columns have a value.\<close>

definition valid_pairs :: "column \<Rightarrow> column \<Rightarrow> (real \<times> real) list" where
  "valid_pairs a b =
     map (\<lambda>p. (num_of (fst p), num_of (snd p)))
       (filter (\<lambda>p. fst p \<noteq> NaN \<and> snd p \<noteq> NaN) (zip (cells a) (cells b)))"

text \<open>Modelled from the spec: one entry of the matrix of \<^verbatim>\<open>DataFrame.corr\<close> (not in the
  repository), the Pearson coefficient of two columns.\<close>

definition corr_entry :: "column \<Rightarrow> column \<Rightarrow> real option" where
  "corr_entry a b = pearson (valid_pairs a b)"

text \<open>Modelled from the spec: \<^verbatim>\<open>df.corr()\<close> of pandas (not in the repository) on an
  all-numeric frame: the square matrix of the pairwise Pearson coefficients, labelled on
  both axes by the frame's columns.\<close>

definition corr :: "dataframe \<Rightarrow> corr_matrix" where
  "corr df =
     \<lparr>corr_values = map (\<lambda>a. map (\<lambda>b. corr_entry a b) df) df,
      corr_columns = columns df, corr_index = columns df\<rparr>"

text \<open>\<^verbatim>\<open>ff.create_annotated_heatmap(z=.., x=.., y=.., colorscale=.., showscale=True)\<close>.
  With empty labels the factory reads \<^verbatim>\<open>z[0]\<close> to number the columns, which fails on the
  empty matrix. The colour scale is one of the selector's four named scales, or \<open>None\<close>
  when the selector is cleared.\<close>

definition create_annotated_heatmap ::
  "real option list list \<Rightarrow> string list \<Rightarrow> string list \<Rightarrow> colorscale option \<Rightarrow> bool
     \<Rightarrow> error + figure" where
  "create_annotated_heatmap z x y colorscale showscale =
     (if x = [] then Inl IndexError
      else Inr \<lparr>fig_data = Heatmap z x y colorscale showscale, fig_title = None,
                xaxis_title = None, yaxis_title = None, fig_layout = []\<rparr>)"

section \<open>Callbacks\<close>

text \<open>Python's \<^verbatim>\<open>str\<close> of a dropdown value, as an f-string prints it.\<close>

definition py_str :: "string option \<Rightarrow> string" where
  "py_str v = (case v of None \<Rightarrow> ''None'' | Some s \<Rightarrow> s)"

definition update_columns_options :: "store \<Rightarrow> string option \<Rightarrow> (string \<times> string) list" where
  "update_columns_options st selected_dataset =
     (if selected_dataset = Some ''vehicle'' then
        map (\<lambda>col. (col, col)) (columns (vehicle_registration_numeric st))
      else if selected_dataset = Some ''transport'' then
        map (\<lambda>col. (col, col)) (columns (public_transport_numeric st))
      else
        map (\<lambda>col. (col, col)) (columns (bicycle_network_numeric st)))"

definition update_correlation_heatmap ::
  "store \<Rightarrow> string option \<Rightarrow> string list option \<Rightarrow> colorscale option \<Rightarrow> error + figure" where
  "update_correlation_heatmap st selected_dataset selected_columns selected_color_scale =
     (let df = (if selected_dataset = Some ''vehicle'' then vehicle_registration_numeric st
                else if selected_dataset = Some ''transport'' then public_transport_numeric st
                else bicycle_network_numeric st);
          selected_columns' =
            (case selected_columns of
               None \<Rightarrow> columns df
             | Some [] \<Rightarrow> columns df
             | Some (k # ks) \<Rightarrow> k # ks)
      in case getitem_list df selected_columns' of
           Inl e \<Rightarrow> Inl e
         | Inr sub \<Rightarrow>
             (let corr_matrix = corr sub
              in create_annotated_heatmap (corr_values corr_matrix) (corr_columns corr_matrix)
                   (corr_index corr_matrix) selected_color_scale True))"

definition update_public_transport_graph :: "store \<Rightarrow> string option \<Rightarrow> error + figure" where
  "update_public_transport_graph st selected_dataset =
     (if ''Fin_year'' \<notin> set (columns (public_transport_df st))
         \<or> ''Pax_annual'' \<notin> set (columns (public_transport_df st))
      then Inr (px_blank (Scatter [] []) ''Public Transport Data Missing or Incorrect'')
      else
        (case px_line (public_transport_df st) ''Fin_year'' ''Pax_annual''
                ''Public Transport Usage Over Time'' of
           Inl e \<Rightarrow> Inl e
         | Inr fig \<Rightarrow> Inr (update_axis_titles fig ''Year'' ''Passenger Count'')))"

text \<open>The first statement of \<^verbatim>\<open>update_vehicle_registrations_graph\<close>: the frame the
  chart is drawn from. \<^verbatim>\<open>'All'\<close> takes the whole frame; any other value indexes the
  fuel column (\<open>KeyError\<close> when it is absent) and keeps the rows equal to the value.\<close>

definition filter_vehicle_type :: "dataframe \<Rightarrow> string option \<Rightarrow> error + dataframe" where
  "filter_vehicle_type vdf selected_vehicle_type =
     (if selected_vehicle_type = Some ''All'' then Inr vdf
      else (case getitem vdf ''CD_CL_FUEL_ENG'' of
              Inl e \<Rightarrow> Inl e
            | Inr c \<Rightarrow> Inr (getitem_mask vdf (eq_mask c selected_vehicle_type))))"

definition update_vehicle_registrations_graph :: "store \<Rightarrow> string option \<Rightarrow> error + figure" where
  "update_vehicle_registrations_graph st selected_vehicle_type =
     (case filter_vehicle_type (vehicle_registration_df st) selected_vehicle_type of
        Inl e \<Rightarrow> Inl e
      | Inr df \<Rightarrow>
          (if ''POSTCODE'' \<notin> set (columns df) \<or> ''TOTAL1'' \<notin> set (columns df)
           then Inr (px_blank (Bar [] []) ''Vehicle Registration Data Missing or Incorrect'')
           else
             (case px_bar df ''POSTCODE'' ''TOTAL1''
                     (''Vehicle Registrations for '' @ py_str selected_vehicle_type)
                     ''#636EFA'' ''Postcode'' ''Number of Vehicles'' of
                Inl e \<Rightarrow> Inl e
              | Inr fig \<Rightarrow>
                  Inr (update_layout
                         (update_axis_titles fig ''Postcode'' ''Number of Vehicles'')
                         [(''plot_bgcolor'', ''#F9F9F9''), (''paper_bgcolor'', ''#F9F9F9'')]))))"

definition update_bike_infrastructure_map :: "store \<Rightarrow> string option \<Rightarrow> error + figure" where
  "update_bike_infrastructure_map st selected_dataset =
     (if ''Latitude'' \<notin> set (columns (bicycle_network_df st))
         \<or> ''Longitude'' \<notin> set (columns (bicycle_network_df st))
      then px_scatter_mapbox_title ''Bike Infrastructure Data Missing or Incorrect''
      else
        (case px_scatter_mapbox (bicycle_network_df st) ''Latitude'' ''Longitude''
                ''local_name'' [''facility_left'', ''facility_right''] of
           Inl e \<Rightarrow> Inl e
         | Inr fig \<Rightarrow>
             Inr ((update_layout fig [(''mapbox_style'', ''open-street-map'')])
                    \<lparr>fig_title := Some ''Bike Infrastructure Distribution''\<rparr>)))"

section \<open>Auxiliary notions for the statements\<close>

text \<open>The numeric frame the dataset selector picks: the selection chain that
  \<^verbatim>\<open>update_columns_options\<close> and \<^verbatim>\<open>update_correlation_heatmap\<close> both start with.\<close>

definition active_numeric :: "store \<Rightarrow> string option \<Rightarrow> dataframe" where
  "active_numeric st selected_dataset =
     (if selected_dataset = Some ''vehicle'' then vehicle_registration_numeric st
      else if selected_dataset = Some ''transport'' then public_transport_numeric st
      else bicycle_network_numeric st)"

text \<open>The columns the heatmap is computed over: the selection, or every column of the
  frame when nothing is selected (\<^verbatim>\<open>if not selected_columns\<close>).\<close>

definition effective_columns :: "dataframe \<Rightarrow> string list option \<Rightarrow> string list" where
  "effective_columns df sel =
     (case sel of None \<Rightarrow> columns df | Some [] \<Rightarrow> columns df | Some (k # ks) \<Rightarrow> k # ks)"

text \<open>The last two statements of \<^verbatim>\<open>update_correlation_heatmap\<close>, on a given frame and
  list of columns.\<close>

definition heatmap_of :: "dataframe \<Rightarrow> string list \<Rightarrow> colorscale option \<Rightarrow> error + figure" where
  "heatmap_of df ks cs =
     (case getitem_list df ks of
        Inl e \<Rightarrow> Inl e
      | Inr sub \<Rightarrow>
          create_annotated_heatmap (corr_values (corr sub)) (columns sub) (columns sub) cs True)"

definition heatmap_x :: "figure \<Rightarrow> string list" where
  "heatmap_x fig = (case fig_data fig of Heatmap z x y cs sh \<Rightarrow> x | _ \<Rightarrow> [])"

definition heatmap_y :: "figure \<Rightarrow> string list" where
  "heatmap_y fig = (case fig_data fig of Heatmap z x y cs sh \<Rightarrow> y | _ \<Rightarrow> [])"

text \<open>The bar marks of a figure, as (position, height) pairs in drawing order.\<close>

definition bar_marks :: "figure \<Rightarrow> (cell \<times> cell) list" where
  "bar_marks fig = (case fig_data fig of Bar xs ys \<Rightarrow> zip xs ys | _ \<Rightarrow> [])"

text \<open>The specification's aggregate: the sum of the heights of the marks standing at one
  position (what a reader of the stacked chart sees as the height at that postcode).\<close>

definition postcode_total :: "(cell \<times> cell) list \<Rightarrow> cell \<Rightarrow> real" where
  "postcode_total ms p = sum_list (map (\<lambda>m. num_of (snd m)) (filter (\<lambda>m. fst m = p) ms))"

text \<open>The values a column holds, missing cells left out, and whether they are all the
  same (a column without any value counts as constant).\<close>

definition col_values :: "column \<Rightarrow> real list" where
  "col_values c = map num_of (filter (\<lambda>x. x \<noteq> NaN) (cells c))"

definition is_constant :: "real list \<Rightarrow> bool" where
  "is_constant xs = (case xs of [] \<Rightarrow> True | x # r \<Rightarrow> list_all (\<lambda>y. y = x) r)"

text \<open>The three-row vehicle table of the specification's example scenario.\<close>

definition ex_vehicle :: dataframe where
  "ex_vehicle =
     [\<lparr>cname = ''POSTCODE'', ctype = Int64, cells = [IntV 3000, IntV 3000, IntV 3001]\<rparr>,
      \<lparr>cname = ''CD_CL_FUEL_ENG'', ctype = Object,
       cells = [StrV ''P'', StrV ''D'', StrV ''P'']\<rparr>,
      \<lparr>cname = ''TOTAL1'', ctype = Int64, cells = [IntV 10, IntV 5, IntV 7]\<rparr>]"

text \<open>Further small tables: vehicle tables without the fuel column and without the totals
  column, a transport table without passenger counts, and a two-row bicycle table whose
  second row has no latitude and no name.\<close>

definition ex_vehicle_nofuel :: dataframe where
  "ex_vehicle_nofuel =
     [\<lparr>cname = ''POSTCODE'', ctype = Int64, cells = [IntV 3000]\<rparr>,
      \<lparr>cname = ''TOTAL1'', ctype = Int64, cells = [IntV 10]\<rparr>]"

definition ex_vehicle_nototal :: dataframe where
  "ex_vehicle_nototal =
     [\<lparr>cname = ''POSTCODE'', ctype = Int64, cells = [IntV 3000]\<rparr>,
      \<lparr>cname = ''CD_CL_FUEL_ENG'', ctype = Object, cells = [StrV ''P'']\<rparr>]"

definition ex_transport :: dataframe where
  "ex_transport =
     [\<lparr>cname = ''Fin_year'', ctype = Object, cells = [StrV ''FY23-24'']\<rparr>,
      \<lparr>cname = ''Stop_name'', ctype = Object, cells = [StrV ''Richmond'']\<rparr>]"

definition ex_bike :: dataframe where
  "ex_bike =
     [\<lparr>cname = ''Latitude'', ctype = Float64, cells = [FloatV (- 37), NaN]\<rparr>,
      \<lparr>cname = ''Longitude'', ctype = Float64, cells = [FloatV 144, FloatV 145]\<rparr>,
      \<lparr>cname = ''local_name'', ctype = Object, cells = [StrV ''Yarra Trail'', NaN]\<rparr>,
      \<lparr>cname = ''facility_left'', ctype = Object, cells = [StrV ''path'', StrV ''lane'']\<rparr>,
      \<lparr>cname = ''facility_right'', ctype = Object, cells = [StrV ''path'', StrV ''lane'']\<rparr>]"

section \<open>Basic facts about frames\<close>

lemma getitem_in_columns:
  "k \<in> set (columns df) \<Longrightarrow> \<exists>c. getitem df k = Inr c"
  by (induction df) (auto simp: columns_def)

lemma getitem_not_in_columns:
  "k \<notin> set (columns df) \<Longrightarrow> getitem df k = Inl (KeyError k)"
  by (induction df) (auto simp: columns_def)

lemma getitem_Inr_D:
  "getitem df k = Inr c \<Longrightarrow> c \<in> set df \<and> cname c = k"
  by (induction df) (auto split: if_splits)

lemma getitem_Inr_columns:
  "getitem df k = Inr c \<Longrightarrow> k \<in> set (columns df)"
  using getitem_Inr_D [of df k c] by (auto simp: columns_def)

lemma getitem_list_Inr_columns:
  "getitem_list df ks = Inr sub \<Longrightarrow> columns sub = ks"
  by (induction ks arbitrary: sub)
     (auto simp: columns_def split: sum.splits dest: getitem_Inr_D)

lemma columns_getitem_mask:
  "columns (getitem_mask df m) = columns df"
  by (simp add: columns_def getitem_mask_def)

lemma columns_fillna:
  "columns (fillna v df) = columns df"
  by (simp add: columns_def fillna_def fillna_column_def)

lemma getitem_getitem_mask:
  "getitem df k = Inr c \<Longrightarrow>
   getitem (getitem_mask df m) k = Inr (c\<lparr>cells := take_mask m (cells c)\<rparr>)"
  by (induction df) (auto simp: getitem_mask_def split: if_splits)

lemma getitem_fillna:
  "getitem df k = Inr c \<Longrightarrow> getitem (fillna v df) k = Inr (fillna_column v c)"
  by (induction df) (auto simp: fillna_def fillna_column_def split: if_splits)

lemma take_mask_map:
  "take_mask (map P fs) xs = map snd (filter (\<lambda>q. P (fst q)) (zip fs xs))"
  unfolding take_mask_def
proof (induction fs arbitrary: xs)
  case Nil
  then show ?case by simp
next
  case (Cons f fs)
  then show ?case by (cases xs) auto
qed

lemma eq_mask_Some:
  "eq_mask c (Some s) = map (\<lambda>x. x = StrV s) (cells c)"
  by (simp add: eq_mask_def)

lemma take_mask_none:
  "\<forall>b \<in> set m. \<not> b \<Longrightarrow> take_mask m xs = []"
  by (auto simp: take_mask_def filter_empty_conv dest: set_zip_leftD)

lemma fillna_column_cells_no_NaN:
  "NaN \<notin> set (cells (fillna_column v c))"
  by (auto simp: fillna_column_def fill_value_def)

lemma fillna_column_keeps_strings:
  "StrV s \<in> set (cells (fillna_column v c)) \<longleftrightarrow> StrV s \<in> set (cells c)"
  by (auto simp: fillna_column_def fill_value_def image_iff)

lemma getitem_list_subset:
  "set ks \<subseteq> set (columns df) \<Longrightarrow> \<exists>sub. getitem_list df ks = Inr sub"
proof (induction ks)
  case Nil
  then show ?case by simp
next
  case (Cons k ks)
  then obtain c where "getitem df k = Inr c"
    using getitem_in_columns [of k df] by auto
  moreover from Cons obtain sub where "getitem_list df ks = Inr sub" by auto
  ultimately show ?case by simp
qed

lemma getitem_list_missing:
  "\<not> set ks \<subseteq> set (columns df) \<Longrightarrow>
   \<exists>k. k \<in> set ks \<and> k \<notin> set (columns df) \<and> getitem_list df ks = Inl (KeyError k)"
proof (induction ks)
  case Nil
  then show ?case by simp
next
  case (Cons k ks)
  show ?case
  proof (cases "k \<in> set (columns df)")
    case False
    then show ?thesis by (auto simp: getitem_not_in_columns)
  next
    case True
    then obtain c where c: "getitem df k = Inr c"
      using getitem_in_columns by blast
    from True Cons.prems have "\<not> set ks \<subseteq> set (columns df)" by simp
    from Cons.IH [OF this] c show ?thesis by auto
  qed
qed

lemma getitem_list_length:
  "getitem_list df ks = Inr sub \<Longrightarrow> length sub = length ks"
  by (induction ks arbitrary: sub) (auto split: sum.splits)

lemma numeric_column_fillna:
  "numeric_column (fillna_column v c) \<longleftrightarrow> numeric_column c"
  by (auto simp: numeric_column_def fillna_column_def fill_value_def numeric_cell_def
        list_all_iff split: cell.splits)

lemma startup_Inr_iff:
  "startup v t b = Inr st \<longleftrightarrow> ''CD_CL_FUEL_ENG'' \<in> set (columns v) \<and> st = load v t b"
proof (cases "''CD_CL_FUEL_ENG'' \<in> set (columns v)")
  case True
  then have "''CD_CL_FUEL_ENG'' \<in> set (columns (fillna 0 v))" by (simp add: columns_fillna)
  then obtain c where "getitem (fillna 0 v) ''CD_CL_FUEL_ENG'' = Inr c"
    using getitem_in_columns by blast
  with True show ?thesis
    by (auto simp: startup_def vehicle_type_options_def load_def)
next
  case False
  then have "''CD_CL_FUEL_ENG'' \<notin> set (columns (fillna 0 v))" by (simp add: columns_fillna)
  then have "getitem (fillna 0 v) ''CD_CL_FUEL_ENG'' = Inl (KeyError ''CD_CL_FUEL_ENG'')"
    by (rule getitem_not_in_columns)
  with False show ?thesis
    by (simp add: startup_def vehicle_type_options_def load_def)
qed

text \<open>Without the fuel column the layout cannot be declared: the script stops while it
  starts.\<close>

lemma startup_without_fuel_column:
  "startup ex_vehicle_nofuel ex_transport ex_bike = Inl (KeyError ''CD_CL_FUEL_ENG'')"
  by (simp add: startup_def vehicle_type_options_def load_def fillna_def fillna_column_def
        ex_vehicle_nofuel_def)

section \<open>Facts about the correlation coefficient\<close>

lemma ssq_nonneg: "0 \<le> ssq xs"
  by (auto simp: ssq_def intro!: sum_list_nonneg)

lemma sum_list_all_eq:
  "list_all (\<lambda>y. y = x) r \<Longrightarrow> sum_list r = real (length r) * (x::real)"
  by (induction r) (auto simp: algebra_simps)

lemma mean_constant:
  assumes "list_all (\<lambda>y. y = x) r"
  shows "mean (x # r) = x"
proof -
  have "sum_list (x # r) = (1 + real (length r)) * x"
    using sum_list_all_eq [OF assms] by (simp add: algebra_simps)
  then show ?thesis by (simp add: mean_def)
qed

lemma all_equal_is_constant:
  "\<forall>y \<in> set xs. y = (m::real) \<Longrightarrow> is_constant xs"
  by (cases xs) (auto simp: is_constant_def list_all_iff)

lemma is_constant_all_mean:
  assumes "is_constant xs" and "y \<in> set xs"
  shows "y = mean xs"
proof (cases xs)
  case Nil
  with assms(2) show ?thesis by simp
next
  case (Cons x r)
  with assms(1) have c: "list_all (\<lambda>y. y = x) r" by (simp add: is_constant_def)
  then have "mean (x # r) = x" by (rule mean_constant)
  moreover from c assms(2) Cons have "y = x" by (auto simp: list_all_iff)
  ultimately show ?thesis using Cons by simp
qed

lemma ssq_zero_iff: "ssq xs = 0 \<longleftrightarrow> is_constant xs"
proof -
  have "ssq xs = 0 \<longleftrightarrow> (\<forall>x \<in> set xs. x = mean xs)"
    unfolding ssq_def
    by (subst sum_list_nonneg_eq_0_iff) auto
  also have "\<dots> \<longleftrightarrow> is_constant xs"
    using all_equal_is_constant [of xs "mean xs"] is_constant_all_mean [of xs] by blast
  finally show ?thesis .
qed

lemma pearson_swap: "pearson (map prod.swap ps) = pearson ps"
  by (simp add: pearson_def scov_def comp_def mult.commute)

lemma pearson_diag:
  "pearson (map (\<lambda>x. (x, x)) xs) = (if is_constant xs then None else Some 1)"
proof -
  have f: "map fst (map (\<lambda>x. (x, x)) xs) = xs" "map snd (map (\<lambda>x. (x, x)) xs) = xs"
    by (simp_all add: comp_def)
  have c: "scov (map (\<lambda>x. (x, x)) xs) = ssq xs"
    by (simp add: scov_def ssq_def comp_def)
  have d: "sqrt (ssq xs * ssq xs) = ssq xs"
    using ssq_nonneg [of xs] by simp
  show ?thesis
    unfolding pearson_def f c d Let_def
    using ssq_zero_iff [of xs] by simp
qed

lemma pearson_None_iff:
  "pearson ps = None \<longleftrightarrow> is_constant (map fst ps) \<or> is_constant (map snd ps)"
  by (simp add: pearson_def Let_def ssq_zero_iff [symmetric])

lemma valid_pairs_swap:
  "valid_pairs b a = map prod.swap (valid_pairs a b)"
proof -
  have h: "map (\<lambda>p. (num_of (fst p), num_of (snd p)))
          (filter (\<lambda>p. fst p \<noteq> NaN \<and> snd p \<noteq> NaN) (zip ys xs))
        = map prod.swap
            (map (\<lambda>p. (num_of (fst p), num_of (snd p)))
               (filter (\<lambda>p. fst p \<noteq> NaN \<and> snd p \<noteq> NaN) (zip xs ys)))"
    for xs ys :: "cell list"
    by (induction xs ys rule: list_induct2') auto
  show ?thesis unfolding valid_pairs_def by (rule h)
qed

lemma valid_pairs_same:
  "valid_pairs a a = map (\<lambda>x. (x, x)) (col_values a)"
proof -
  have h: "map (\<lambda>p. (num_of (fst p), num_of (snd p)))
          (filter (\<lambda>p. fst p \<noteq> NaN \<and> snd p \<noteq> NaN) (zip xs xs))
        = map (\<lambda>x. (x, x)) (map num_of (filter (\<lambda>x. x \<noteq> NaN) xs))"
    for xs :: "cell list"
    by (induction xs) auto
  show ?thesis unfolding valid_pairs_def col_values_def by (rule h)
qed

lemma corr_entry_sym: "corr_entry a b = corr_entry b a"
  by (simp add: corr_entry_def valid_pairs_swap [of a b] pearson_swap)

lemma corr_entry_diag:
  "corr_entry a a = (if is_constant (col_values a) then None else Some 1)"
  by (simp add: corr_entry_def valid_pairs_same pearson_diag)

lemma corr_entry_None_iff:
  "corr_entry a b = None \<longleftrightarrow>
     is_constant (map fst (valid_pairs a b)) \<or> is_constant (map snd (valid_pairs a b))"
  by (simp add: corr_entry_def pearson_None_iff)

lemma corr_values_nth:
  assumes "i < length df" and "j < length df"
  shows "corr_values (corr df) ! i ! j = corr_entry (df ! i) (df ! j)"
  using assms by (simp add: corr_def)

section \<open>The correlation heatmap\<close>

lemma heatmap_active:
  "update_correlation_heatmap st ds sel cs =
     heatmap_of (active_numeric st ds) (effective_columns (active_numeric st ds) sel) cs"
  unfolding update_correlation_heatmap_def active_numeric_def corr_def Let_def
    heatmap_of_def effective_columns_def
  by (simp split: sum.splits option.splits list.splits)

lemma effective_columns_all:
  "effective_columns df None = columns df"
  "effective_columns df (Some []) = columns df"
  "effective_columns df (Some (columns df)) = columns df"
  by (simp_all add: effective_columns_def split: list.splits)

lemma heatmap_of_Inr:
  assumes "heatmap_of df ks cs = Inr fig"
  shows "\<exists>sub. getitem_list df ks = Inr sub \<and> ks \<noteq> []
           \<and> fig = \<lparr>fig_data = Heatmap (corr_values (corr sub)) ks ks cs True,
                     fig_title = None, xaxis_title = None, yaxis_title = None,
                     fig_layout = []\<rparr>"
proof (cases "getitem_list df ks")
  case (Inl e)
  with assms show ?thesis by (simp add: heatmap_of_def)
next
  case (Inr sub)
  then have cols: "columns sub = ks" by (rule getitem_list_Inr_columns)
  with assms Inr show ?thesis
    by (auto simp: heatmap_of_def create_annotated_heatmap_def split: if_splits)
qed

text \<open>
  Claim C5. Whatever the dataset key and the colour scale, the heatmap callback called with
  no column selection (the dropdown's \<open>None\<close>, or the empty list) returns the same result as
  the callback called with the full list of the columns of the selected numeric frame.
\<close>

theorem heatmap_empty_selection_is_all:
  "update_correlation_heatmap st ds None cs =
     update_correlation_heatmap st ds (Some (columns (active_numeric st ds))) cs
   \<and> update_correlation_heatmap st ds (Some []) cs =
     update_correlation_heatmap st ds (Some (columns (active_numeric st ds))) cs"
  by (simp add: heatmap_active effective_columns_all)

text \<open>The statement of C5 at the example table: no selection gives the heatmap over the two
  numeric columns, as their explicit selection does.\<close>

theorem heatmap_empty_selection_is_all_witness:
  "update_correlation_heatmap (load ex_vehicle [] []) (Some ''vehicle'') None (Some RdBu)
     = update_correlation_heatmap (load ex_vehicle [] []) (Some ''vehicle'')
         (Some [''POSTCODE'', ''TOTAL1'']) (Some RdBu)"
  using heatmap_empty_selection_is_all
          [of "load ex_vehicle [] []" "Some ''vehicle''" "Some RdBu"]
  by (simp add: active_numeric_def load_def select_dtypes_def fillna_def fillna_column_def
        columns_def ex_vehicle_def)

text \<open>
  Claim C10. A dataset-selector value other than \<^verbatim>\<open>'vehicle'\<close> and \<^verbatim>\<open>'transport'\<close> (the
  documented \<^verbatim>\<open>'bike'\<close>, any other string, or the cleared dropdown) makes both the
  column-options callback and the heatmap callback work on the bicycle frame's numeric
  projection: the options are that frame's columns, and the heatmap result is the one
  for \<^verbatim>\<open>'bike'\<close>. Neither callback has a branch for an unknown dataset.
\<close>

theorem selector_falls_through_to_bike:
  assumes "ds \<noteq> Some ''vehicle''" and "ds \<noteq> Some ''transport''"
  shows "active_numeric st ds = bicycle_network_numeric st
       \<and> update_columns_options st ds
           = map (\<lambda>col. (col, col)) (columns (bicycle_network_numeric st))
       \<and> update_columns_options st ds = update_columns_options st (Some ''bike'')
       \<and> update_correlation_heatmap st ds sel cs
           = heatmap_of (bicycle_network_numeric st)
               (effective_columns (bicycle_network_numeric st) sel) cs
       \<and> update_correlation_heatmap st ds sel cs
           = update_correlation_heatmap st (Some ''bike'') sel cs"
  using assms
  by (simp add: update_columns_options_def heatmap_active active_numeric_def)

theorem selector_falls_through_to_bike_witness:
  "Some ''tram'' \<noteq> Some ''vehicle'' \<and> Some ''tram'' \<noteq> Some ''transport''
   \<and> update_columns_options (load ex_vehicle [] ex_bike) (Some ''tram'')
       = [(''Latitude'', ''Latitude''), (''Longitude'', ''Longitude'')]
   \<and> update_correlation_heatmap (load ex_vehicle [] ex_bike) (Some ''tram'') None None
       = update_correlation_heatmap (load ex_vehicle [] ex_bike) (Some ''bike'') None None"
proof -
  have a: "Some ''tram'' \<noteq> Some ''vehicle''" by simp
  have b: "Some ''tram'' \<noteq> Some ''transport''" by simp
  note w = selector_falls_through_to_bike [OF a b, of "load ex_vehicle [] ex_bike" None None]
  from w have "update_columns_options (load ex_vehicle [] ex_bike) (Some ''tram'')
      = map (\<lambda>col. (col, col)) (columns (bicycle_network_numeric (load ex_vehicle [] ex_bike)))"
    by blast
  then have opts: "update_columns_options (load ex_vehicle [] ex_bike) (Some ''tram'')
       = [(''Latitude'', ''Latitude''), (''Longitude'', ''Longitude'')]"
    by (simp add: load_def select_dtypes_def fillna_def fillna_column_def columns_def
          ex_bike_def)
  from w have "update_correlation_heatmap (load ex_vehicle [] ex_bike) (Some ''tram'') None None
       = update_correlation_heatmap (load ex_vehicle [] ex_bike) (Some ''bike'') None None"
    by blast
  with a b opts show ?thesis by blast
qed

section \<open>The time series\<close>

text \<open>
  Claim C8. When the transport frame lacks the \<^verbatim>\<open>Fin_year\<close> column or the \<^verbatim>\<open>Pax_annual\<close>
  column, the time-series callback returns (it does not raise) a line figure without data
  whose title is \<^verbatim>\<open>Public Transport Data Missing or Incorrect\<close>.
\<close>

theorem transport_missing_column_placeholder:
  assumes "''Fin_year'' \<notin> set (columns (public_transport_df st))
           \<or> ''Pax_annual'' \<notin> set (columns (public_transport_df st))"
  shows "update_public_transport_graph st ds
           = Inr (px_blank (Scatter [] []) ''Public Transport Data Missing or Incorrect'')
       \<and> fig_title (px_blank (Scatter [] []) ''Public Transport Data Missing or Incorrect'')
           = Some ''Public Transport Data Missing or Incorrect''
       \<and> trace_size (fig_data
             (px_blank (Scatter [] []) ''Public Transport Data Missing or Incorrect'')) = 0"
  using assms by (auto simp: update_public_transport_graph_def px_blank_def)

theorem transport_missing_column_placeholder_witness:
  "''Pax_annual'' \<notin> set (columns (public_transport_df (load [] ex_transport [])))
   \<and> update_public_transport_graph (load [] ex_transport []) (Some ''vehicle'')
       = Inr \<lparr>fig_data = Scatter [] [],
              fig_title = Some ''Public Transport Data Missing or Incorrect'',
              xaxis_title = None, yaxis_title = None, fig_layout = []\<rparr>"
proof -
  have p: "''Pax_annual'' \<notin> set (columns (public_transport_df (load [] ex_transport [])))"
    by (simp add: load_def fillna_def fillna_column_def columns_def ex_transport_def)
  then have h: "''Fin_year'' \<notin> set (columns (public_transport_df (load [] ex_transport []))) \<or>
    ''Pax_annual'' \<notin> set (columns (public_transport_df (load [] ex_transport [])))"
    by simp
  show ?thesis
    using p transport_missing_column_placeholder [OF h, of "Some ''vehicle''"]
    by (simp add: px_blank_def)
qed

section \<open>Vehicle registrations by postcode\<close>

lemma px_bar_Inr:
  assumes "getitem df x = Inr cx" and "getitem df y = Inr cy"
  shows "px_bar df x y s colour xl yl
           = Inr \<lparr>fig_data = Bar (cells cx) (cells cy), fig_title = Some s,
                  xaxis_title = Some xl, yaxis_title = Some yl,
                  fig_layout = [(''marker_color'', colour)]\<rparr>"
  using assms by (simp add: px_bar_def px_column_def)

lemma vehicle_view_bar:
  assumes "filter_vehicle_type (vehicle_registration_df st) f = Inr df"
      and "getitem df ''POSTCODE'' = Inr p"
      and "getitem df ''TOTAL1'' = Inr t"
  shows "update_vehicle_registrations_graph st f
           = Inr \<lparr>fig_data = Bar (cells p) (cells t),
                  fig_title = Some (''Vehicle Registrations for '' @ py_str f),
                  xaxis_title = Some ''Postcode'', yaxis_title = Some ''Number of Vehicles'',
                  fig_layout = [(''marker_color'', ''#636EFA''), (''plot_bgcolor'', ''#F9F9F9''),
                                (''paper_bgcolor'', ''#F9F9F9'')]\<rparr>"
proof -
  have "''POSTCODE'' \<in> set (columns df)" and "''TOTAL1'' \<in> set (columns df)"
    using assms(2,3) by (auto dest: getitem_Inr_columns)
  then show ?thesis
    using assms
    by (simp add: update_vehicle_registrations_graph_def px_bar_Inr [OF assms(2,3)]
          update_layout_def update_axis_titles_def)
qed

lemma vehicle_view_missing:
  assumes "filter_vehicle_type (vehicle_registration_df st) f = Inr df"
      and "''POSTCODE'' \<notin> set (columns df) \<or> ''TOTAL1'' \<notin> set (columns df)"
  shows "update_vehicle_registrations_graph st f
           = Inr (px_blank (Bar [] []) ''Vehicle Registration Data Missing or Incorrect'')"
  using assms by (auto simp: update_vehicle_registrations_graph_def)

lemma filter_vehicle_type_All:
  "filter_vehicle_type vdf (Some ''All'') = Inr vdf"
  by (simp add: filter_vehicle_type_def)

lemma filter_vehicle_type_other:
  assumes "f \<noteq> Some ''All''" and "getitem vdf ''CD_CL_FUEL_ENG'' = Inr c"
  shows "filter_vehicle_type vdf f = Inr (getitem_mask vdf (eq_mask c f))"
  using assms by (simp add: filter_vehicle_type_def)

lemma filter_vehicle_type_columns:
  "filter_vehicle_type vdf f = Inr df \<Longrightarrow> columns df = columns vdf"
  by (auto simp: filter_vehicle_type_def columns_getitem_mask split: if_splits sum.splits)

lemma sum_postcode_totals:
  assumes "distinct ps" and "fst ` set ms \<subseteq> set ps"
  shows "sum_list (map (postcode_total ms) ps) = sum_list (map (\<lambda>m. num_of (snd m)) ms)"
  using assms(2)
proof (induction ms)
  case Nil
  then show ?case by (simp add: postcode_total_def)
next
  case (Cons m ms)
  have step: "postcode_total (m # ms) p
                = (if p = fst m then num_of (snd m) else 0) + postcode_total ms p" for p
    by (auto simp: postcode_total_def)
  have "sum_list (map (\<lambda>p. if p = fst m then num_of (snd m) else 0) ps) = num_of (snd m)"
    using assms(1) Cons.prems by (simp add: sum_list_distinct_conv_sum_set)
  then show ?case using Cons
    by (simp add: step sum_list_addf)
qed

lemmas vehicle_eval =
  load_def fillna_def fillna_column_def fill_value_def select_dtypes_def columns_def
  update_vehicle_registrations_graph_def filter_vehicle_type_def getitem_mask_def eq_mask_def
  take_mask_def px_bar_def px_column_def px_blank_def update_layout_def update_axis_titles_def
  py_str_def bar_marks_def

lemma ex_vehicle_All:
  "update_vehicle_registrations_graph (load ex_vehicle [] []) (Some ''All'')
     = Inr \<lparr>fig_data = Bar [IntV 3000, IntV 3000, IntV 3001] [IntV 10, IntV 5, IntV 7],
            fig_title = Some ''Vehicle Registrations for All'',
            xaxis_title = Some ''Postcode'', yaxis_title = Some ''Number of Vehicles'',
            fig_layout = [(''marker_color'', ''#636EFA''), (''plot_bgcolor'', ''#F9F9F9''),
                          (''paper_bgcolor'', ''#F9F9F9'')]\<rparr>"
  by (simp add: vehicle_eval ex_vehicle_def)

lemma ex_vehicle_P:
  "update_vehicle_registrations_graph (load ex_vehicle [] []) (Some ''P'')
     = Inr \<lparr>fig_data = Bar [IntV 3000, IntV 3001] [IntV 10, IntV 7],
            fig_title = Some ''Vehicle Registrations for P'',
            xaxis_title = Some ''Postcode'', yaxis_title = Some ''Number of Vehicles'',
            fig_layout = [(''marker_color'', ''#636EFA''), (''plot_bgcolor'', ''#F9F9F9''),
                          (''paper_bgcolor'', ''#F9F9F9'')]\<rparr>"
  by (simp add: vehicle_eval ex_vehicle_def)

text \<open>
  Claim C1, as the code has it. On the three-row example table the filter \<^verbatim>\<open>All\<close> draws one
  bar mark per row, (3000, 10), (3000, 5), (3001, 7): the two marks at postcode 3000 are
  not summed into one bar of 15, they stand at the same position and their heights add
  up to 15; the marks at 3001 add up to 7. The filter \<^verbatim>\<open>P\<close> draws (3000, 10) and (3001, 7).
  In general \<^verbatim>\<open>All\<close> draws every row of the table, and any other filter string draws exactly
  the rows whose fuel cell is that very string (string equality, so case matters), in
  table order.
\<close>

theorem vehicle_view_rows:
  "map_sum id bar_marks
       (update_vehicle_registrations_graph (load ex_vehicle [] []) (Some ''All''))
     = Inr [(IntV 3000, IntV 10), (IntV 3000, IntV 5), (IntV 3001, IntV 7)]
   \<and> postcode_total [(IntV 3000, IntV 10), (IntV 3000, IntV 5), (IntV 3001, IntV 7)]
         (IntV 3000) = 15
   \<and> postcode_total [(IntV 3000, IntV 10), (IntV 3000, IntV 5), (IntV 3001, IntV 7)]
         (IntV 3001) = 7
   \<and> map_sum id bar_marks
         (update_vehicle_registrations_graph (load ex_vehicle [] []) (Some ''P''))
       = Inr [(IntV 3000, IntV 10), (IntV 3001, IntV 7)]
   \<and> (getitem (vehicle_registration_df st) ''POSTCODE'' = Inr p
        \<and> getitem (vehicle_registration_df st) ''TOTAL1'' = Inr t
      \<longrightarrow> map_sum id fig_data (update_vehicle_registrations_graph st (Some ''All''))
            = Inr (Bar (cells p) (cells t)))
   \<and> (s \<noteq> ''All''
        \<and> getitem (vehicle_registration_df st) ''CD_CL_FUEL_ENG'' = Inr c
        \<and> getitem (vehicle_registration_df st) ''POSTCODE'' = Inr p
        \<and> getitem (vehicle_registration_df st) ''TOTAL1'' = Inr t
      \<longrightarrow> map_sum id fig_data (update_vehicle_registrations_graph st (Some s))
            = Inr (Bar (map snd (filter (\<lambda>q. fst q = StrV s) (zip (cells c) (cells p))))
                       (map snd (filter (\<lambda>q. fst q = StrV s) (zip (cells c) (cells t))))))"
proof -
  have ex_all: "map_sum id bar_marks
       (update_vehicle_registrations_graph (load ex_vehicle [] []) (Some ''All''))
     = Inr [(IntV 3000, IntV 10), (IntV 3000, IntV 5), (IntV 3001, IntV 7)]"
    by (simp add: ex_vehicle_All bar_marks_def)
  have tot1: "postcode_total [(IntV 3000, IntV 10), (IntV 3000, IntV 5), (IntV 3001, IntV 7)]
         (IntV 3000) = 15"
    by (simp add: postcode_total_def num_of_def)
  have tot2: "postcode_total [(IntV 3000, IntV 10), (IntV 3000, IntV 5), (IntV 3001, IntV 7)]
         (IntV 3001) = 7"
    by (simp add: postcode_total_def num_of_def)
  have ex_p: "map_sum id bar_marks
         (update_vehicle_registrations_graph (load ex_vehicle [] []) (Some ''P''))
       = Inr [(IntV 3000, IntV 10), (IntV 3001, IntV 7)]"
    by (simp add: ex_vehicle_P bar_marks_def)
  have all: "map_sum id fig_data (update_vehicle_registrations_graph st (Some ''All''))
            = Inr (Bar (cells p) (cells t))"
    if "getitem (vehicle_registration_df st) ''POSTCODE'' = Inr p"
      and "getitem (vehicle_registration_df st) ''TOTAL1'' = Inr t"
    using vehicle_view_bar [OF filter_vehicle_type_All that] by simp
  have other: "map_sum id fig_data (update_vehicle_registrations_graph st (Some s))
            = Inr (Bar (map snd (filter (\<lambda>q. fst q = StrV s) (zip (cells c) (cells p))))
                       (map snd (filter (\<lambda>q. fst q = StrV s) (zip (cells c) (cells t)))))"
    if ne: "s \<noteq> ''All''"
      and fuel: "getitem (vehicle_registration_df st) ''CD_CL_FUEL_ENG'' = Inr c"
      and pc: "getitem (vehicle_registration_df st) ''POSTCODE'' = Inr p"
      and tt: "getitem (vehicle_registration_df st) ''TOTAL1'' = Inr t"
  proof -
    from ne have "Some s \<noteq> Some ''All''" by simp
    note flt = filter_vehicle_type_other [OF this fuel]
    note bar = vehicle_view_bar [OF flt getitem_getitem_mask [OF pc] getitem_getitem_mask [OF tt]]
    show ?thesis
      by (simp add: bar eq_mask_Some take_mask_map)
  qed
  from ex_all tot1 tot2 ex_p all other show ?thesis by blast
qed

theorem vehicle_view_rows_witness:
  "''D'' \<noteq> ''All''
   \<and> getitem (vehicle_registration_df (load ex_vehicle [] [])) ''CD_CL_FUEL_ENG''
       = Inr \<lparr>cname = ''CD_CL_FUEL_ENG'', ctype = Object,
              cells = [StrV ''P'', StrV ''D'', StrV ''P'']\<rparr>
   \<and> getitem (vehicle_registration_df (load ex_vehicle [] [])) ''POSTCODE''
       = Inr \<lparr>cname = ''POSTCODE'', ctype = Int64,
              cells = [IntV 3000, IntV 3000, IntV 3001]\<rparr>
   \<and> getitem (vehicle_registration_df (load ex_vehicle [] [])) ''TOTAL1''
       = Inr \<lparr>cname = ''TOTAL1'', ctype = Int64, cells = [IntV 10, IntV 5, IntV 7]\<rparr>
   \<and> map_sum id fig_data
         (update_vehicle_registrations_graph (load ex_vehicle [] []) (Some ''D''))
       = Inr (Bar [IntV 3000] [IntV 5])"
proof -
  have ne: "''D'' \<noteq> ''All''" by simp
  have fuel: "getitem (vehicle_registration_df (load ex_vehicle [] [])) ''CD_CL_FUEL_ENG''
       = Inr \<lparr>cname = ''CD_CL_FUEL_ENG'', ctype = Object,
              cells = [StrV ''P'', StrV ''D'', StrV ''P'']\<rparr>"
    by (simp add: load_def fillna_def fillna_column_def ex_vehicle_def)
  have pc: "getitem (vehicle_registration_df (load ex_vehicle [] [])) ''POSTCODE''
       = Inr \<lparr>cname = ''POSTCODE'', ctype = Int64,
              cells = [IntV 3000, IntV 3000, IntV 3001]\<rparr>"
    by (simp add: load_def fillna_def fillna_column_def ex_vehicle_def)
  have tt: "getitem (vehicle_registration_df (load ex_vehicle [] [])) ''TOTAL1''
       = Inr \<lparr>cname = ''TOTAL1'', ctype = Int64, cells = [IntV 10, IntV 5, IntV 7]\<rparr>"
    by (simp add: load_def fillna_def fillna_column_def ex_vehicle_def)
  from vehicle_view_rows
         [of "load ex_vehicle [] []"
             "\<lparr>cname = ''POSTCODE'', ctype = Int64, cells = [IntV 3000, IntV 3000, IntV 3001]\<rparr>"
             "\<lparr>cname = ''TOTAL1'', ctype = Int64, cells = [IntV 10, IntV 5, IntV 7]\<rparr>"
             "''D''"
             "\<lparr>cname = ''CD_CL_FUEL_ENG'', ctype = Object,
               cells = [StrV ''P'', StrV ''D'', StrV ''P'']\<rparr>"]
       ne fuel pc tt
  have "map_sum id fig_data
         (update_vehicle_registrations_graph (load ex_vehicle [] []) (Some ''D''))
       = Inr (Bar [IntV 3000] [IntV 5])"
    by simp
  with ne fuel pc tt show ?thesis by blast
qed

text \<open>
  Claim C1 as written fails: with the filter \<^verbatim>\<open>All\<close> the figure built from the example table
  holds three marks, two of them at postcode 3000 with heights 10 and 5; no mark of
  height 15 exists.
\<close>

theorem vehicle_all_example_counterexample:
  "map_sum id bar_marks
       (update_vehicle_registrations_graph (load ex_vehicle [] []) (Some ''All''))
     = Inr [(IntV 3000, IntV 10), (IntV 3000, IntV 5), (IntV 3001, IntV 7)]
   \<and> map_sum id (\<lambda>fig. (IntV 3000, IntV 15) \<in> set (bar_marks fig))
       (update_vehicle_registrations_graph (load ex_vehicle [] []) (Some ''All''))
     = Inr False"
  by (simp add: ex_vehicle_All bar_marks_def)

text \<open>
  Claim C2, as the code has it. The callback does not group by postcode. For every table
  and every filter the bar figure has one mark per row of the filtered table, in row
  order, standing at the row's \<^verbatim>\<open>POSTCODE\<close> with the row's \<^verbatim>\<open>TOTAL1\<close> as its height; a
  postcode that occurs in several filtered rows gets as many marks. Nothing is lost: the
  heights of the marks add up to the sum of the filtered rows' totals, and so do the
  per-postcode sums of mark heights, taken over the distinct postcodes.
\<close>

theorem vehicle_view_one_mark_per_row:
  assumes "filter_vehicle_type (vehicle_registration_df st) f = Inr df"
      and "getitem df ''POSTCODE'' = Inr p"
      and "getitem df ''TOTAL1'' = Inr t"
      and "length (cells p) = length (cells t)"
  shows "\<exists>fig. update_vehicle_registrations_graph st f = Inr fig
           \<and> fig_data fig = Bar (cells p) (cells t)
           \<and> bar_marks fig = zip (cells p) (cells t)
           \<and> length (bar_marks fig) = length (cells p)
           \<and> sum_list (map (\<lambda>m. num_of (snd m)) (bar_marks fig))
               = sum_list (map num_of (cells t))
           \<and> sum_list (map (postcode_total (bar_marks fig)) (remdups (cells p)))
               = sum_list (map num_of (cells t))"
proof -
  let ?ms = "zip (cells p) (cells t)"
  have own: "sum_list (map (\<lambda>m. num_of (snd m)) ?ms) = sum_list (map num_of (cells t))"
  proof -
    have "map (\<lambda>m. num_of (snd m)) ?ms = map num_of (map snd ?ms)" by simp
    also have "map snd ?ms = cells t" using assms(4) by simp
    finally show ?thesis by simp
  qed
  have "fst ` set ?ms \<subseteq> set (remdups (cells p))"
    by (auto dest: set_zip_leftD)
  then have agg: "sum_list (map (postcode_total ?ms) (remdups (cells p)))
                    = sum_list (map (\<lambda>m. num_of (snd m)) ?ms)"
    by (intro sum_postcode_totals) simp_all
  show ?thesis
    using vehicle_view_bar [OF assms(1-3)] assms(4) own agg
    by (simp add: bar_marks_def)
qed

theorem vehicle_view_one_mark_per_row_witness:
  "filter_vehicle_type (vehicle_registration_df (load ex_vehicle [] [])) (Some ''All'')
     = Inr (fillna 0 ex_vehicle)
   \<and> getitem (fillna 0 ex_vehicle) ''POSTCODE''
       = Inr \<lparr>cname = ''POSTCODE'', ctype = Int64,
              cells = [IntV 3000, IntV 3000, IntV 3001]\<rparr>
   \<and> getitem (fillna 0 ex_vehicle) ''TOTAL1''
       = Inr \<lparr>cname = ''TOTAL1'', ctype = Int64, cells = [IntV 10, IntV 5, IntV 7]\<rparr>
   \<and> (\<exists>fig. update_vehicle_registrations_graph (load ex_vehicle [] []) (Some ''All'') = Inr fig
         \<and> fig_data fig = Bar [IntV 3000, IntV 3000, IntV 3001] [IntV 10, IntV 5, IntV 7]
         \<and> length (bar_marks fig) = 3
         \<and> sum_list (map (postcode_total (bar_marks fig)) [IntV 3000, IntV 3001]) = 22)"
proof -
  let ?p = "\<lparr>cname = ''POSTCODE'', ctype = Int64, cells = [IntV 3000, IntV 3000, IntV 3001]\<rparr>"
  let ?t = "\<lparr>cname = ''TOTAL1'', ctype = Int64, cells = [IntV 10, IntV 5, IntV 7]\<rparr>"
  have flt: "filter_vehicle_type (vehicle_registration_df (load ex_vehicle [] []))
               (Some ''All'') = Inr (fillna 0 ex_vehicle)"
    by (simp add: filter_vehicle_type_All load_def)
  have pc: "getitem (fillna 0 ex_vehicle) ''POSTCODE'' = Inr ?p"
    by (simp add: fillna_def fillna_column_def ex_vehicle_def)
  have tt: "getitem (fillna 0 ex_vehicle) ''TOTAL1'' = Inr ?t"
    by (simp add: fillna_def fillna_column_def ex_vehicle_def)
  have len: "length (cells ?p) = length (cells ?t)" by simp
  from vehicle_view_one_mark_per_row [OF flt pc tt len]
  have "\<exists>fig. update_vehicle_registrations_graph (load ex_vehicle [] []) (Some ''All'') = Inr fig
         \<and> fig_data fig = Bar [IntV 3000, IntV 3000, IntV 3001] [IntV 10, IntV 5, IntV 7]
         \<and> length (bar_marks fig) = 3
         \<and> sum_list (map (postcode_total (bar_marks fig)) [IntV 3000, IntV 3001]) = 22"
    by (auto simp: num_of_def)
  with flt pc tt show ?thesis by blast
qed

text \<open>
  Claim C2 as written fails: on the example table with the filter \<^verbatim>\<open>All\<close> the figure
  has three bar marks, while the filtered rows hold two distinct postcodes.
\<close>

theorem vehicle_bars_per_postcode_counterexample:
  "map_sum id (\<lambda>fig. (length (bar_marks fig), length (remdups (map fst (bar_marks fig)))))
       (update_vehicle_registrations_graph (load ex_vehicle [] []) (Some ''All''))
     = Inr (3, 2)"
  by (simp add: ex_vehicle_All bar_marks_def)

section \<open>The bicycle map\<close>

lemma bike_view_points:
  assumes "getitem (bicycle_network_df st) ''Latitude'' = Inr la"
      and "getitem (bicycle_network_df st) ''Longitude'' = Inr lo"
      and "getitem (bicycle_network_df st) ''local_name'' = Inr hn"
      and "getitem (bicycle_network_df st) ''facility_left'' = Inr fl"
      and "getitem (bicycle_network_df st) ''facility_right'' = Inr fr"
      and "numeric_column la" and "numeric_column lo"
  shows "update_bike_infrastructure_map st ds
           = Inr \<lparr>fig_data = Scattermapbox (cells la) (cells lo) (cells hn) [cells fl, cells fr],
                  fig_title = Some ''Bike Infrastructure Distribution'',
                  xaxis_title = None, yaxis_title = None,
                  fig_layout = [(''zoom'', ''10''), (''height'', ''500''),
                                (''mapbox_style'', ''open-street-map'')]\<rparr>"
proof -
  have "''Latitude'' \<in> set (columns (bicycle_network_df st))"
    and "''Longitude'' \<in> set (columns (bicycle_network_df st))"
    using assms(1,2) by (auto dest: getitem_Inr_columns)
  then show ?thesis
    using assms
    by (simp add: update_bike_infrastructure_map_def px_scatter_mapbox_def px_column_def
          update_layout_def)
qed

lemmas bike_eval =
  load_def fillna_def fillna_column_def fill_value_def columns_def
  update_bike_infrastructure_map_def px_scatter_mapbox_def px_column_def
  update_layout_def numeric_column_def numeric_cell_def

lemma ex_bike_view:
  "update_bike_infrastructure_map (load ex_vehicle ex_transport ex_bike) None
     = Inr \<lparr>fig_data = Scattermapbox [FloatV (- 37), FloatV 0] [FloatV 144, FloatV 145]
                         [StrV ''Yarra Trail'', IntV 0]
                         [[StrV ''path'', StrV ''lane''], [StrV ''path'', StrV ''lane'']],
            fig_title = Some ''Bike Infrastructure Distribution'',
            xaxis_title = None, yaxis_title = None,
            fig_layout = [(''zoom'', ''10''), (''height'', ''500''),
                          (''mapbox_style'', ''open-street-map'')]\<rparr>"
  by (simp add: bike_eval ex_bike_def)

text \<open>
  Claim C4, as the code has it. For every bicycle table that holds the five columns the
  map uses (\<^verbatim>\<open>Latitude\<close>, \<^verbatim>\<open>Longitude\<close>, \<^verbatim>\<open>local_name\<close>, \<^verbatim>\<open>facility_left\<close>,
  \<^verbatim>\<open>facility_right\<close>) with no string in the two coordinate columns, in a script that has
  started, the map callback drops no row. Loading has replaced a missing latitude or
  longitude by 0, and the map draws one point per row of the table, the rows with a
  filled-in coordinate included, at the coordinate 0.
\<close>

theorem bike_map_one_point_per_row:
  assumes "startup v t b = Inr st"
      and "getitem b ''Latitude'' = Inr la" and "getitem b ''Longitude'' = Inr lo"
      and "getitem b ''local_name'' = Inr hn" and "getitem b ''facility_left'' = Inr fl"
      and "getitem b ''facility_right'' = Inr fr"
      and "numeric_column la" and "numeric_column lo"
  shows "\<exists>fig. update_bike_infrastructure_map st ds = Inr fig
           \<and> fig_data fig
               = Scattermapbox
                   (map (\<lambda>x. if x = NaN then fill_value 0 (ctype la) else x) (cells la))
                   (map (\<lambda>x. if x = NaN then fill_value 0 (ctype lo) else x) (cells lo))
                   (map (\<lambda>x. if x = NaN then fill_value 0 (ctype hn) else x) (cells hn))
                   [map (\<lambda>x. if x = NaN then fill_value 0 (ctype fl) else x) (cells fl),
                    map (\<lambda>x. if x = NaN then fill_value 0 (ctype fr) else x) (cells fr)]
           \<and> trace_size (fig_data fig) = length (cells la)"
proof -
  from assms(1) have st: "st = load v t b" by (simp add: startup_Inr_iff)
  have bdf: "bicycle_network_df st = fillna 0 b" by (simp add: st load_def)
  have "getitem (bicycle_network_df st) ''Latitude'' = Inr (fillna_column 0 la)"
    and "getitem (bicycle_network_df st) ''Longitude'' = Inr (fillna_column 0 lo)"
    and "getitem (bicycle_network_df st) ''local_name'' = Inr (fillna_column 0 hn)"
    and "getitem (bicycle_network_df st) ''facility_left'' = Inr (fillna_column 0 fl)"
    and "getitem (bicycle_network_df st) ''facility_right'' = Inr (fillna_column 0 fr)"
    and "numeric_column (fillna_column 0 la)" and "numeric_column (fillna_column 0 lo)"
    using assms(2-8) by (simp_all add: bdf getitem_fillna numeric_column_fillna)
  from bike_view_points [OF this] show ?thesis
    by (simp add: fillna_column_def)
qed

theorem bike_map_one_point_per_row_witness:
  "startup ex_vehicle ex_transport ex_bike = Inr (load ex_vehicle ex_transport ex_bike)
   \<and> getitem ex_bike ''Latitude''
       = Inr \<lparr>cname = ''Latitude'', ctype = Float64, cells = [FloatV (- 37), NaN]\<rparr>
   \<and> getitem ex_bike ''Longitude''
       = Inr \<lparr>cname = ''Longitude'', ctype = Float64, cells = [FloatV 144, FloatV 145]\<rparr>
   \<and> getitem ex_bike ''local_name''
       = Inr \<lparr>cname = ''local_name'', ctype = Object, cells = [StrV ''Yarra Trail'', NaN]\<rparr>
   \<and> getitem ex_bike ''facility_left''
       = Inr \<lparr>cname = ''facility_left'', ctype = Object,
              cells = [StrV ''path'', StrV ''lane'']\<rparr>
   \<and> getitem ex_bike ''facility_right''
       = Inr \<lparr>cname = ''facility_right'', ctype = Object,
              cells = [StrV ''path'', StrV ''lane'']\<rparr>
   \<and> numeric_column \<lparr>cname = ''Latitude'', ctype = Float64, cells = [FloatV (- 37), NaN]\<rparr>
   \<and> numeric_column
         \<lparr>cname = ''Longitude'', ctype = Float64, cells = [FloatV 144, FloatV 145]\<rparr>
   \<and> (\<exists>fig. update_bike_infrastructure_map (load ex_vehicle ex_transport ex_bike)
               (Some ''bike'') = Inr fig
         \<and> fig_data fig
             = Scattermapbox [FloatV (- 37), FloatV 0] [FloatV 144, FloatV 145]
                 [StrV ''Yarra Trail'', IntV 0]
                 [[StrV ''path'', StrV ''lane''], [StrV ''path'', StrV ''lane'']]
         \<and> trace_size (fig_data fig) = 2)"
proof -
  let ?la = "\<lparr>cname = ''Latitude'', ctype = Float64, cells = [FloatV (- 37), NaN]\<rparr>"
  let ?lo = "\<lparr>cname = ''Longitude'', ctype = Float64, cells = [FloatV 144, FloatV 145]\<rparr>"
  let ?hn = "\<lparr>cname = ''local_name'', ctype = Object, cells = [StrV ''Yarra Trail'', NaN]\<rparr>"
  let ?fl = "\<lparr>cname = ''facility_left'', ctype = Object,
              cells = [StrV ''path'', StrV ''lane'']\<rparr>"
  let ?fr = "\<lparr>cname = ''facility_right'', ctype = Object,
              cells = [StrV ''path'', StrV ''lane'']\<rparr>"
  have s: "startup ex_vehicle ex_transport ex_bike = Inr (load ex_vehicle ex_transport ex_bike)"
    by (simp add: startup_Inr_iff columns_def ex_vehicle_def)
  have g: "getitem ex_bike ''Latitude'' = Inr ?la" "getitem ex_bike ''Longitude'' = Inr ?lo"
    "getitem ex_bike ''local_name'' = Inr ?hn" "getitem ex_bike ''facility_left'' = Inr ?fl"
    "getitem ex_bike ''facility_right'' = Inr ?fr"
    by (simp_all add: ex_bike_def)
  have n: "numeric_column ?la" "numeric_column ?lo"
    by (simp_all add: numeric_column_def numeric_cell_def)
  from bike_map_one_point_per_row [OF s g n, of "Some ''bike''"]
  have p: "\<exists>fig. update_bike_infrastructure_map (load ex_vehicle ex_transport ex_bike)
               (Some ''bike'') = Inr fig
         \<and> fig_data fig
             = Scattermapbox [FloatV (- 37), FloatV 0] [FloatV 144, FloatV 145]
                 [StrV ''Yarra Trail'', IntV 0]
                 [[StrV ''path'', StrV ''lane''], [StrV ''path'', StrV ''lane'']]
         \<and> trace_size (fig_data fig) = 2"
    by (auto simp: fill_value_def)
  from s g n p show ?thesis by blast
qed

text \<open>
  Claim C4 as written fails: the second row of the two-row bicycle table has no latitude,
  and the map still draws two points, the second at latitude 0.
\<close>

theorem bike_map_missing_coordinate_counterexample:
  "startup ex_vehicle ex_transport ex_bike = Inr (load ex_vehicle ex_transport ex_bike)
   \<and> map_sum id fig_data
         (update_bike_infrastructure_map (load ex_vehicle ex_transport ex_bike) None)
       = Inr (Scattermapbox [FloatV (- 37), FloatV 0] [FloatV 144, FloatV 145]
                [StrV ''Yarra Trail'', IntV 0]
                [[StrV ''path'', StrV ''lane''], [StrV ''path'', StrV ''lane'']])
   \<and> map_sum id (\<lambda>fig. trace_size (fig_data fig))
         (update_bike_infrastructure_map (load ex_vehicle ex_transport ex_bike) None) = Inr 2"
proof -
  have "startup ex_vehicle ex_transport ex_bike = Inr (load ex_vehicle ex_transport ex_bike)"
    by (simp add: startup_Inr_iff columns_def ex_vehicle_def)
  then show ?thesis by (simp add: ex_bike_view)
qed

section \<open>Loading replaces every missing cell by 0\<close>

lemma fillna_nth:
  assumes "i < length df"
  shows "fillna v df ! i = fillna_column v (df ! i)"
  using assms by (simp add: fillna_def)

text \<open>
  Claim C9, as the code has it. Loading calls \<^verbatim>\<open>fillna(0)\<close> on each whole table: every
  missing cell of every column, whatever the column's type, becomes 0 (the float 0 in a
  float64 column, the integer 0 elsewhere, string columns included). No column is filled
  with \<^verbatim>\<open>Unknown\<close> and none is exempt. Cells that are present, column names, dtypes and
  the number of rows are unchanged, and after loading no column of any of the three
  tables holds a missing-value marker.
\<close>

theorem load_fills_every_column_with_zero:
  "vehicle_registration_df (load v t b) = fillna 0 v
   \<and> public_transport_df (load v t b) = fillna 0 t
   \<and> bicycle_network_df (load v t b) = fillna 0 b
   \<and> columns (fillna 0 df) = columns df
   \<and> map ctype (fillna 0 df) = map ctype df
   \<and> (\<forall>c \<in> set (fillna 0 df). NaN \<notin> set (cells c))
   \<and> (\<forall>i < length df.
         length (cells (fillna 0 df ! i)) = length (cells (df ! i))
         \<and> (\<forall>j < length (cells (df ! i)).
               cells (fillna 0 df ! i) ! j
                 = (if cells (df ! i) ! j = NaN
                    then (if ctype (df ! i) = Float64 then FloatV 0 else IntV 0)
                    else cells (df ! i) ! j)))"
proof -
  have "\<forall>c \<in> set (fillna 0 df). NaN \<notin> set (cells c)"
    by (auto simp: fillna_def fillna_column_def fill_value_def)
  moreover have "map ctype (fillna 0 df) = map ctype df"
    by (simp add: fillna_def fillna_column_def)
  moreover have "\<forall>i < length df.
         length (cells (fillna 0 df ! i)) = length (cells (df ! i))
         \<and> (\<forall>j < length (cells (df ! i)).
               cells (fillna 0 df ! i) ! j
                 = (if cells (df ! i) ! j = NaN
                    then (if ctype (df ! i) = Float64 then FloatV 0 else IntV 0)
                    else cells (df ! i) ! j))"
    by (simp add: fillna_nth fillna_column_def fill_value_def)
  ultimately show ?thesis
    by (simp add: load_def columns_fillna)
qed

theorem load_fills_every_column_with_zero_witness:
  "bicycle_network_df (load [] [] ex_bike) = fillna 0 ex_bike
   \<and> (2::nat) < length ex_bike \<and> (1::nat) < length (cells (ex_bike ! 2))
   \<and> cells (ex_bike ! 2) ! 1 = NaN
   \<and> ctype (ex_bike ! 2) = Object
   \<and> cells (fillna 0 ex_bike ! 2) ! 1 = IntV 0
   \<and> cells (fillna 0 ex_bike ! 2) ! 0 = StrV ''Yarra Trail''"
proof -
  note w = load_fills_every_column_with_zero [of "[]" "[]" ex_bike ex_bike]
  have a: "(2::nat) < length ex_bike" by (simp add: ex_bike_def)
  have b: "(1::nat) < length (cells (ex_bike ! 2))" "(0::nat) < length (cells (ex_bike ! 2))"
    by (simp_all add: ex_bike_def)
  have c: "cells (ex_bike ! 2) ! 1 = NaN" "ctype (ex_bike ! 2) = Object"
    "cells (ex_bike ! 2) ! 0 = StrV ''Yarra Trail''"
    by (simp_all add: ex_bike_def)
  from w a have inner: "\<forall>j < length (cells (ex_bike ! 2)).
               cells (fillna 0 ex_bike ! 2) ! j
                 = (if cells (ex_bike ! 2) ! j = NaN
                    then (if ctype (ex_bike ! 2) = Float64 then FloatV 0 else IntV 0)
                    else cells (ex_bike ! 2) ! j)"
    by blast
  from inner b(1) c have d: "cells (fillna 0 ex_bike ! 2) ! 1 = IntV 0" by simp
  from inner b(2) c have e: "cells (fillna 0 ex_bike ! 2) ! 0 = StrV ''Yarra Trail''" by simp
  from w have f: "bicycle_network_df (load [] [] ex_bike) = fillna 0 ex_bike" by blast
  from a b c d e f show ?thesis by blast
qed

text \<open>
  Claim C9 as written fails: the missing name in the string column \<^verbatim>\<open>local_name\<close> of the
  two-row bicycle table is loaded as the integer 0, not as the string \<^verbatim>\<open>Unknown\<close>, and the
  column is not left as it was.
\<close>

theorem load_string_column_counterexample:
  "map_sum id cells (getitem (bicycle_network_df (load [] [] ex_bike)) ''local_name'')
     = Inr [StrV ''Yarra Trail'', IntV 0]
   \<and> map_sum id cells (getitem (bicycle_network_df (load [] [] ex_bike)) ''local_name'')
     \<noteq> Inr [StrV ''Yarra Trail'', StrV ''Unknown'']
   \<and> map_sum id cells (getitem (bicycle_network_df (load [] [] ex_bike)) ''local_name'')
     \<noteq> map_sum id cells (getitem ex_bike ''local_name'')"
  by (simp add: load_def fillna_def fillna_column_def fill_value_def ex_bike_def)

section \<open>Missing columns and degenerate selections\<close>

lemma ex_vehicle_lower_p_full:
  "update_vehicle_registrations_graph (load ex_vehicle ex_transport ex_bike) (Some ''p'')
     = Inr \<lparr>fig_data = Bar [] [],
            fig_title = Some ''Vehicle Registrations for p'',
            xaxis_title = Some ''Postcode'', yaxis_title = Some ''Number of Vehicles'',
            fig_layout = [(''marker_color'', ''#636EFA''), (''plot_bgcolor'', ''#F9F9F9''),
                          (''paper_bgcolor'', ''#F9F9F9'')]\<rparr>"
  by (simp add: vehicle_eval ex_vehicle_def)

text \<open>
  Claim C3, as the code has it, for a script that has started. Two callbacks guard two
  columns each and return their figure without data when a guarded column is absent:
  the time series guards \<^verbatim>\<open>Fin_year\<close> and \<^verbatim>\<open>Pax_annual\<close>, the postcode bars guard
  \<^verbatim>\<open>POSTCODE\<close> and \<^verbatim>\<open>TOTAL1\<close>. The time series, the postcode bars and the map each read
  their own table only, so their results do not change with the other two tables or
  with the dataset selector. The heatmap has no such guard: a selection that names a
  column the numeric frame lacks raises \<open>KeyError\<close>. A filter that matches no row is not a
  missing-data case for the code: the callback returns the ordinary bar figure, titled
  for the filter, with no mark.
\<close>

theorem guarded_columns_give_placeholder:
  assumes "startup v t b = Inr st"
  shows
  "(''Fin_year'' \<notin> set (columns t) \<or> ''Pax_annual'' \<notin> set (columns t)
      \<longrightarrow> update_public_transport_graph st ds
            = Inr (px_blank (Scatter [] []) ''Public Transport Data Missing or Incorrect''))
   \<and> (''POSTCODE'' \<notin> set (columns v) \<or> ''TOTAL1'' \<notin> set (columns v)
      \<longrightarrow> update_vehicle_registrations_graph st f
            = Inr (px_blank (Bar [] []) ''Vehicle Registration Data Missing or Incorrect''))
   \<and> (startup v1 t b1 = Inr st1
      \<longrightarrow> update_public_transport_graph st1 ds1 = update_public_transport_graph st ds)
   \<and> (startup v t2 b2 = Inr st2
      \<longrightarrow> update_vehicle_registrations_graph st2 f = update_vehicle_registrations_graph st f)
   \<and> (startup v3 t3 b = Inr st3
      \<longrightarrow> update_bike_infrastructure_map st3 ds3 = update_bike_infrastructure_map st ds)
   \<and> (\<not> set (k # ks) \<subseteq> set (columns (active_numeric st ds))
      \<longrightarrow> (\<exists>m. m \<in> set (k # ks) \<and> m \<notin> set (columns (active_numeric st ds))
             \<and> update_correlation_heatmap st ds (Some (k # ks)) cs = Inl (KeyError m)))
   \<and> (getitem v ''CD_CL_FUEL_ENG'' = Inr c \<and> getitem v ''POSTCODE'' = Inr p
        \<and> getitem v ''TOTAL1'' = Inr tt \<and> s \<noteq> ''All'' \<and> StrV s \<notin> set (cells c)
      \<longrightarrow> update_vehicle_registrations_graph st (Some s)
            = Inr \<lparr>fig_data = Bar [] [],
                   fig_title = Some (''Vehicle Registrations for '' @ s),
                   xaxis_title = Some ''Postcode'', yaxis_title = Some ''Number of Vehicles'',
                   fig_layout = [(''marker_color'', ''#636EFA''), (''plot_bgcolor'', ''#F9F9F9''),
                                 (''paper_bgcolor'', ''#F9F9F9'')]\<rparr>)"
proof -
  from assms have st: "st = load v t b" and fuel: "''CD_CL_FUEL_ENG'' \<in> set (columns v)"
    by (simp_all add: startup_Inr_iff)
  have vdf: "vehicle_registration_df st = fillna 0 v" by (simp add: st load_def)
  have tr: "update_public_transport_graph st ds
            = Inr (px_blank (Scatter [] []) ''Public Transport Data Missing or Incorrect'')"
    if "''Fin_year'' \<notin> set (columns t) \<or> ''Pax_annual'' \<notin> set (columns t)"
    using that by (auto simp: update_public_transport_graph_def st load_def columns_fillna)
  have vh: "update_vehicle_registrations_graph st f
            = Inr (px_blank (Bar [] []) ''Vehicle Registration Data Missing or Incorrect'')"
    if miss: "''POSTCODE'' \<notin> set (columns v) \<or> ''TOTAL1'' \<notin> set (columns v)"
  proof -
    have "\<exists>df. filter_vehicle_type (fillna 0 v) f = Inr df"
    proof (cases "f = Some ''All''")
      case True
      then show ?thesis by (simp add: filter_vehicle_type_All)
    next
      case False
      from fuel have "''CD_CL_FUEL_ENG'' \<in> set (columns (fillna 0 v))"
        by (simp add: columns_fillna)
      then obtain c where "getitem (fillna 0 v) ''CD_CL_FUEL_ENG'' = Inr c"
        using getitem_in_columns by blast
      with False show ?thesis by (simp add: filter_vehicle_type_other)
    qed
    then obtain df where df: "filter_vehicle_type (fillna 0 v) f = Inr df" ..
    then have "columns df = columns v"
      by (simp add: filter_vehicle_type_columns columns_fillna)
    with miss df show ?thesis
      by (intro vehicle_view_missing [where df = df]) (simp_all add: vdf)
  qed
  have ind1: "update_public_transport_graph st1 ds1 = update_public_transport_graph st ds"
    if "startup v1 t b1 = Inr st1"
    using that by (simp add: startup_Inr_iff update_public_transport_graph_def st load_def)
  have ind2: "update_vehicle_registrations_graph st2 f = update_vehicle_registrations_graph st f"
    if "startup v t2 b2 = Inr st2"
    using that
    by (simp add: startup_Inr_iff update_vehicle_registrations_graph_def st load_def)
  have ind3: "update_bike_infrastructure_map st3 ds3 = update_bike_infrastructure_map st ds"
    if "startup v3 t3 b = Inr st3"
    using that by (simp add: startup_Inr_iff update_bike_infrastructure_map_def st load_def)
  have hm: "\<exists>m. m \<in> set (k # ks) \<and> m \<notin> set (columns (active_numeric st ds))
             \<and> update_correlation_heatmap st ds (Some (k # ks)) cs = Inl (KeyError m)"
    if "\<not> set (k # ks) \<subseteq> set (columns (active_numeric st ds))"
    using getitem_list_missing [OF that]
    by (auto simp: heatmap_active effective_columns_def heatmap_of_def)
  have emp: "update_vehicle_registrations_graph st (Some s)
            = Inr \<lparr>fig_data = Bar [] [],
                   fig_title = Some (''Vehicle Registrations for '' @ s),
                   xaxis_title = Some ''Postcode'', yaxis_title = Some ''Number of Vehicles'',
                   fig_layout = [(''marker_color'', ''#636EFA''), (''plot_bgcolor'', ''#F9F9F9''),
                                 (''paper_bgcolor'', ''#F9F9F9'')]\<rparr>"
    if fc: "getitem v ''CD_CL_FUEL_ENG'' = Inr c" and pc: "getitem v ''POSTCODE'' = Inr p"
      and tot: "getitem v ''TOTAL1'' = Inr tt" and ne: "s \<noteq> ''All''"
      and none: "StrV s \<notin> set (cells c)"
  proof -
    from ne have ne': "Some s \<noteq> Some ''All''" by simp
    let ?m = "eq_mask (fillna_column 0 c) (Some s)"
    have flt: "filter_vehicle_type (vehicle_registration_df st) (Some s)
                 = Inr (getitem_mask (fillna 0 v) ?m)"
      unfolding vdf by (rule filter_vehicle_type_other [OF ne' getitem_fillna [OF fc]])
    have "\<forall>b \<in> set ?m. \<not> b"
      using none by (auto simp: eq_mask_Some fillna_column_keeps_strings)
    then have nil: "take_mask ?m xs = []" for xs :: "cell list"
      by (rule take_mask_none)
    from vehicle_view_bar [OF flt getitem_getitem_mask [OF getitem_fillna [OF pc]]
                            getitem_getitem_mask [OF getitem_fillna [OF tot]]]
    show ?thesis by (simp add: nil py_str_def)
  qed
  from tr vh ind1 ind2 ind3 hm emp show ?thesis by blast
qed

theorem guarded_columns_give_placeholder_witness:
  "startup ex_vehicle_nototal ex_transport ex_bike
     = Inr (load ex_vehicle_nototal ex_transport ex_bike)
   \<and> startup ex_vehicle ex_transport ex_bike = Inr (load ex_vehicle ex_transport ex_bike)
   \<and> ''Pax_annual'' \<notin> set (columns ex_transport)
   \<and> update_public_transport_graph (load ex_vehicle_nototal ex_transport ex_bike) None
       = Inr (px_blank (Scatter [] []) ''Public Transport Data Missing or Incorrect'')
   \<and> ''TOTAL1'' \<notin> set (columns ex_vehicle_nototal)
   \<and> update_vehicle_registrations_graph (load ex_vehicle_nototal ex_transport ex_bike)
         (Some ''P'')
       = Inr (px_blank (Bar [] []) ''Vehicle Registration Data Missing or Incorrect'')
   \<and> update_public_transport_graph (load ex_vehicle ex_transport ex_bike) (Some ''bike'')
       = update_public_transport_graph (load ex_vehicle_nototal ex_transport ex_bike) None
   \<and> update_bike_infrastructure_map (load ex_vehicle ex_transport ex_bike) (Some ''bike'')
       = update_bike_infrastructure_map (load ex_vehicle_nototal ex_transport ex_bike) None
   \<and> ''Stop_ID'' \<in> set [''Latitude'', ''Stop_ID'']
   \<and> ''Stop_ID'' \<notin> set (columns (active_numeric
                          (load ex_vehicle_nototal ex_transport ex_bike) None))
   \<and> update_correlation_heatmap (load ex_vehicle_nototal ex_transport ex_bike) None
         (Some [''Latitude'', ''Stop_ID'']) (Some Viridis)
       = Inl (KeyError ''Stop_ID'')
   \<and> getitem ex_vehicle ''CD_CL_FUEL_ENG''
       = Inr \<lparr>cname = ''CD_CL_FUEL_ENG'', ctype = Object,
              cells = [StrV ''P'', StrV ''D'', StrV ''P'']\<rparr>
   \<and> getitem ex_vehicle ''POSTCODE''
       = Inr \<lparr>cname = ''POSTCODE'', ctype = Int64,
              cells = [IntV 3000, IntV 3000, IntV 3001]\<rparr>
   \<and> getitem ex_vehicle ''TOTAL1''
       = Inr \<lparr>cname = ''TOTAL1'', ctype = Int64, cells = [IntV 10, IntV 5, IntV 7]\<rparr>
   \<and> ''E'' \<noteq> ''All'' \<and> StrV ''E'' \<notin> set [StrV ''P'', StrV ''D'', StrV ''P'']
   \<and> update_vehicle_registrations_graph (load ex_vehicle ex_transport ex_bike) (Some ''E'')
       = Inr \<lparr>fig_data = Bar [] [],
              fig_title = Some ''Vehicle Registrations for E'',
              xaxis_title = Some ''Postcode'', yaxis_title = Some ''Number of Vehicles'',
              fig_layout = [(''marker_color'', ''#636EFA''), (''plot_bgcolor'', ''#F9F9F9''),
                            (''paper_bgcolor'', ''#F9F9F9'')]\<rparr>"
proof -
  let ?c = "\<lparr>cname = ''CD_CL_FUEL_ENG'', ctype = Object,
              cells = [StrV ''P'', StrV ''D'', StrV ''P'']\<rparr>"
  let ?p = "\<lparr>cname = ''POSTCODE'', ctype = Int64, cells = [IntV 3000, IntV 3000, IntV 3001]\<rparr>"
  let ?t = "\<lparr>cname = ''TOTAL1'', ctype = Int64, cells = [IntV 10, IntV 5, IntV 7]\<rparr>"
  let ?st = "load ex_vehicle_nototal ex_transport ex_bike"
  let ?st' = "load ex_vehicle ex_transport ex_bike"
  have s1: "startup ex_vehicle_nototal ex_transport ex_bike = Inr ?st"
    by (simp add: startup_Inr_iff columns_def ex_vehicle_nototal_def)
  have s2: "startup ex_vehicle ex_transport ex_bike = Inr ?st'"
    by (simp add: startup_Inr_iff columns_def ex_vehicle_def)
  note w1 = guarded_columns_give_placeholder
              [OF s1, of None "Some ''P''" ex_vehicle ex_bike ?st' "Some ''bike''"
                  ex_transport ex_bike ?st ex_vehicle ex_transport ?st' "Some ''bike''"
                  "''Latitude''" "[''Stop_ID'']" "Some Viridis" ?c ?p ?t "''E''"]
  note w2 = guarded_columns_give_placeholder
              [OF s2, of None "Some ''P''" ex_vehicle ex_bike ?st' "Some ''bike''"
                  ex_transport ex_bike ?st' ex_vehicle ex_transport ?st' "Some ''bike''"
                  "''Latitude''" "[''Stop_ID'']" "Some Viridis" ?c ?p ?t "''E''"]
  have h1: "''Pax_annual'' \<notin> set (columns ex_transport)"
    by (simp add: columns_def ex_transport_def)
  have h2: "''TOTAL1'' \<notin> set (columns ex_vehicle_nototal)"
    by (simp add: columns_def ex_vehicle_nototal_def)
  have cols: "columns (active_numeric ?st None) = [''Latitude'', ''Longitude'']"
    by (simp add: active_numeric_def load_def select_dtypes_def fillna_def fillna_column_def
          columns_def ex_bike_def)
  have h5: "''Stop_ID'' \<in> set [''Latitude'', ''Stop_ID'']"
    "''Stop_ID'' \<notin> set (columns (active_numeric ?st None))"
    by (simp_all add: cols)
  have g: "getitem ex_vehicle ''CD_CL_FUEL_ENG'' = Inr ?c" "getitem ex_vehicle ''POSTCODE'' = Inr ?p"
    "getitem ex_vehicle ''TOTAL1'' = Inr ?t"
    by (simp_all add: ex_vehicle_def)
  have h6: "''E'' \<noteq> ''All''" "StrV ''E'' \<notin> set [StrV ''P'', StrV ''D'', StrV ''P'']"
    by simp_all
  from w1 h1 have c1: "update_public_transport_graph ?st None
       = Inr (px_blank (Scatter [] []) ''Public Transport Data Missing or Incorrect'')"
    by blast
  from w1 h2 have c2: "update_vehicle_registrations_graph ?st (Some ''P'')
       = Inr (px_blank (Bar [] []) ''Vehicle Registration Data Missing or Incorrect'')"
    by blast
  from w1 s2 have i1: "update_public_transport_graph ?st' (Some ''bike'')
       = update_public_transport_graph ?st None"
    by blast
  from w1 s2 have i3: "update_bike_infrastructure_map ?st' (Some ''bike'')
       = update_bike_infrastructure_map ?st None"
    by blast
  have "\<not> set [''Latitude'', ''Stop_ID''] \<subseteq> set (columns (active_numeric ?st None))"
    by (simp add: cols)
  with w1 obtain m where m: "m \<in> set [''Latitude'', ''Stop_ID'']"
      "m \<notin> set (columns (active_numeric ?st None))"
      "update_correlation_heatmap ?st None (Some [''Latitude'', ''Stop_ID'']) (Some Viridis)
         = Inl (KeyError m)"
    by blast
  from m(1,2) have "m = ''Stop_ID''" by (auto simp: cols)
  with m(3) have c4: "update_correlation_heatmap ?st None (Some [''Latitude'', ''Stop_ID''])
         (Some Viridis) = Inl (KeyError ''Stop_ID'')"
    by simp
  have h6': "StrV ''E'' \<notin> set (cells ?c)" using h6(2) by simp
  from w2 g h6(1) h6' have c5: "update_vehicle_registrations_graph ?st' (Some ''E'')
       = Inr \<lparr>fig_data = Bar [] [],
              fig_title = Some (''Vehicle Registrations for '' @ ''E''),
              xaxis_title = Some ''Postcode'', yaxis_title = Some ''Number of Vehicles'',
              fig_layout = [(''marker_color'', ''#636EFA''), (''plot_bgcolor'', ''#F9F9F9''),
                            (''paper_bgcolor'', ''#F9F9F9'')]\<rparr>"
    by blast
  then have c5': "update_vehicle_registrations_graph ?st' (Some ''E'')
       = Inr \<lparr>fig_data = Bar [] [],
              fig_title = Some ''Vehicle Registrations for E'',
              xaxis_title = Some ''Postcode'', yaxis_title = Some ''Number of Vehicles'',
              fig_layout = [(''marker_color'', ''#636EFA''), (''plot_bgcolor'', ''#F9F9F9''),
                            (''paper_bgcolor'', ''#F9F9F9'')]\<rparr>"
    by simp
  from s1 s2 h1 h2 h5 h6 g c1 c2 i1 i3 c4 c5' show ?thesis by blast
qed

text \<open>
  Claim C3 as written fails. The script starts on the example tables; the filter \<^verbatim>\<open>p\<close>
  matches no row of the vehicle table (the fuel codes are upper case), and the callback
  returns the ordinary bar figure titled \<^verbatim>\<open>Vehicle Registrations for p\<close> with no mark, not
  the figure titled \<^verbatim>\<open>Vehicle Registration Data Missing or Incorrect\<close>.
\<close>

theorem vehicle_view_no_placeholder_counterexample:
  "startup ex_vehicle ex_transport ex_bike = Inr (load ex_vehicle ex_transport ex_bike)
   \<and> update_vehicle_registrations_graph (load ex_vehicle ex_transport ex_bike) (Some ''p'')
     = Inr \<lparr>fig_data = Bar [] [],
            fig_title = Some ''Vehicle Registrations for p'',
            xaxis_title = Some ''Postcode'', yaxis_title = Some ''Number of Vehicles'',
            fig_layout = [(''marker_color'', ''#636EFA''), (''plot_bgcolor'', ''#F9F9F9''),
                          (''paper_bgcolor'', ''#F9F9F9'')]\<rparr>
   \<and> update_vehicle_registrations_graph (load ex_vehicle ex_transport ex_bike) (Some ''p'')
     \<noteq> Inr (px_blank (Bar [] []) ''Vehicle Registration Data Missing or Incorrect'')"
proof -
  have "startup ex_vehicle ex_transport ex_bike = Inr (load ex_vehicle ex_transport ex_bike)"
    by (simp add: startup_Inr_iff columns_def ex_vehicle_def)
  then show ?thesis by (simp add: ex_vehicle_lower_p_full px_blank_def)
qed

lemma ex_total1_corr:
  "corr_entry \<lparr>cname = ''TOTAL1'', ctype = Int64, cells = [IntV 10, IntV 5, IntV 7]\<rparr>
     \<lparr>cname = ''TOTAL1'', ctype = Int64, cells = [IntV 10, IntV 5, IntV 7]\<rparr> = Some 1"
  by (simp add: corr_entry_diag col_values_def num_of_def is_constant_def)

text \<open>
  Claim C6, as the code has it. The heatmap callback has no branch for a degenerate
  selection and never returns a figure without data. Whenever it returns, the figure is
  an annotated heatmap without title, labelled on both axes by the columns computed
  over (the selection, or all numeric columns when the selection is empty), with at
  least one cell; in particular one selected column of the frame gives the heatmap of
  that single column.
\<close>

theorem heatmap_has_no_placeholder:
  "(update_correlation_heatmap st ds sel cs = Inr fig
      \<longrightarrow> fig_title fig = None
          \<and> heatmap_x fig = effective_columns (active_numeric st ds) sel
          \<and> heatmap_y fig = heatmap_x fig
          \<and> heatmap_x fig \<noteq> []
          \<and> 0 < trace_size (fig_data fig)
          \<and> fig \<noteq> px_blank tr s)
   \<and> (getitem (active_numeric st ds) k = Inr c
      \<longrightarrow> update_correlation_heatmap st ds (Some [k]) cs
            = Inr \<lparr>fig_data = Heatmap [[corr_entry c c]] [k] [k] cs True, fig_title = None,
                   xaxis_title = None, yaxis_title = None, fig_layout = []\<rparr>)"
proof -
  have a: "fig_title fig = None
          \<and> heatmap_x fig = effective_columns (active_numeric st ds) sel
          \<and> heatmap_y fig = heatmap_x fig
          \<and> heatmap_x fig \<noteq> []
          \<and> 0 < trace_size (fig_data fig)
          \<and> fig \<noteq> px_blank tr s"
    if "update_correlation_heatmap st ds sel cs = Inr fig"
  proof -
    from that have "heatmap_of (active_numeric st ds)
                      (effective_columns (active_numeric st ds) sel) cs = Inr fig"
      by (simp add: heatmap_active)
    from heatmap_of_Inr [OF this] show ?thesis
      by (auto simp: heatmap_x_def heatmap_y_def px_blank_def)
  qed
  have b: "update_correlation_heatmap st ds (Some [k]) cs
            = Inr \<lparr>fig_data = Heatmap [[corr_entry c c]] [k] [k] cs True, fig_title = None,
                   xaxis_title = None, yaxis_title = None, fig_layout = []\<rparr>"
    if "getitem (active_numeric st ds) k = Inr c"
    using that getitem_Inr_D [OF that]
    by (simp add: heatmap_active effective_columns_def heatmap_of_def
          create_annotated_heatmap_def columns_def corr_def)
  from a b show ?thesis by blast
qed

theorem heatmap_has_no_placeholder_witness:
  "getitem (active_numeric (load ex_vehicle [] []) (Some ''vehicle'')) ''TOTAL1''
     = Inr \<lparr>cname = ''TOTAL1'', ctype = Int64, cells = [IntV 10, IntV 5, IntV 7]\<rparr>
   \<and> update_correlation_heatmap (load ex_vehicle [] []) (Some ''vehicle'') (Some [''TOTAL1''])
         (Some Viridis)
       = Inr \<lparr>fig_data = Heatmap [[Some 1]] [''TOTAL1''] [''TOTAL1''] (Some Viridis) True,
              fig_title = None, xaxis_title = None, yaxis_title = None, fig_layout = []\<rparr>
   \<and> fig_title \<lparr>fig_data = Heatmap [[Some 1]] [''TOTAL1''] [''TOTAL1''] (Some Viridis) True,
              fig_title = None, xaxis_title = None, yaxis_title = None, fig_layout = []\<rparr>
       = None"
proof -
  let ?c = "\<lparr>cname = ''TOTAL1'', ctype = Int64, cells = [IntV 10, IntV 5, IntV 7]\<rparr>"
  let ?fig = "\<lparr>fig_data = Heatmap [[Some 1]] [''TOTAL1''] [''TOTAL1''] (Some Viridis) True,
              fig_title = None, xaxis_title = None, yaxis_title = None, fig_layout = []\<rparr>"
  have g: "getitem (active_numeric (load ex_vehicle [] []) (Some ''vehicle'')) ''TOTAL1'' = Inr ?c"
    by (simp add: active_numeric_def load_def select_dtypes_def fillna_def fillna_column_def
          ex_vehicle_def)
  note w = heatmap_has_no_placeholder
             [of "load ex_vehicle [] []" "Some ''vehicle''" "Some [''TOTAL1'']" "Some Viridis"
                 ?fig "Bar [] []" "''none''" "''TOTAL1''" ?c]
  from w g have "update_correlation_heatmap (load ex_vehicle [] []) (Some ''vehicle'')
                      (Some [''TOTAL1'']) (Some Viridis)
       = Inr \<lparr>fig_data = Heatmap [[corr_entry ?c ?c]] [''TOTAL1''] [''TOTAL1''] (Some Viridis) True,
              fig_title = None, xaxis_title = None, yaxis_title = None, fig_layout = []\<rparr>"
    by blast
  then have r: "update_correlation_heatmap (load ex_vehicle [] []) (Some ''vehicle'')
                      (Some [''TOTAL1'']) (Some Viridis) = Inr ?fig"
    by (simp only: ex_total1_corr)
  with w have "fig_title ?fig = None" by blast
  with g r show ?thesis by blast
qed

text \<open>
  Claim C6 as written fails: with the single column \<^verbatim>\<open>TOTAL1\<close> selected the callback
  returns a heatmap of one cell, without title, not a figure that reports missing data.
\<close>

theorem heatmap_single_column_counterexample:
  "update_correlation_heatmap (load ex_vehicle [] []) (Some ''vehicle'') (Some [''TOTAL1''])
       (Some Viridis)
     = Inr \<lparr>fig_data = Heatmap [[Some 1]] [''TOTAL1''] [''TOTAL1''] (Some Viridis) True,
            fig_title = None, xaxis_title = None, yaxis_title = None, fig_layout = []\<rparr>
   \<and> map_sum id (\<lambda>fig. trace_size (fig_data fig))
         (update_correlation_heatmap (load ex_vehicle [] []) (Some ''vehicle'')
            (Some [''TOTAL1'']) (Some Viridis))
       = Inr 1"
proof -
  let ?c = "\<lparr>cname = ''TOTAL1'', ctype = Int64, cells = [IntV 10, IntV 5, IntV 7]\<rparr>"
  have g: "getitem (active_numeric (load ex_vehicle [] []) (Some ''vehicle'')) ''TOTAL1'' = Inr ?c"
    by (simp add: active_numeric_def load_def select_dtypes_def fillna_def fillna_column_def
          ex_vehicle_def)
  have "update_correlation_heatmap (load ex_vehicle [] []) (Some ''vehicle'')
          (Some [''TOTAL1'']) (Some Viridis)
       = Inr \<lparr>fig_data = Heatmap [[corr_entry ?c ?c]] [''TOTAL1''] [''TOTAL1''] (Some Viridis) True,
              fig_title = None, xaxis_title = None, yaxis_title = None, fig_layout = []\<rparr>"
    using g getitem_Inr_D [OF g]
    by (simp add: heatmap_active effective_columns_def heatmap_of_def
          create_annotated_heatmap_def columns_def corr_def)
  then show ?thesis by (simp add: ex_total1_corr)
qed

section \<open>The correlation matrix\<close>

lemma heatmap_of_subset:
  assumes "ks \<noteq> []" and "set ks \<subseteq> set (columns df)"
  shows "\<exists>sub. getitem_list df ks = Inr sub \<and> length sub = length ks
           \<and> heatmap_of df ks cs
               = Inr \<lparr>fig_data = Heatmap (corr_values (corr sub)) ks ks cs True,
                      fig_title = None, xaxis_title = None, yaxis_title = None,
                      fig_layout = []\<rparr>"
proof -
  from getitem_list_subset [OF assms(2)] obtain sub where sub: "getitem_list df ks = Inr sub" ..
  then have "columns sub = ks" and "length sub = length ks"
    by (simp_all add: getitem_list_Inr_columns getitem_list_length)
  with sub assms(1) show ?thesis
    by (simp add: heatmap_of_def create_annotated_heatmap_def)
qed

text \<open>
  Claim C7. For every store, every dataset key and every non-empty selection of columns
  of the active numeric frame, the heatmap callback returns (it does not raise) a
  heatmap whose rows and columns carry the same labels, the selection, in the same
  order, and whose matrix is square and symmetric. A diagonal entry is 1, unless the
  column is constant (it has no two different values), in which case the entry is
  undefined. An entry is undefined exactly when one of its two columns is constant over
  the rows where both have a value; an undefined entry is a value of the matrix, not a
  failure of the callback.
\<close>

theorem correlation_matrix_symmetric_unit_diagonal:
  assumes "sel \<noteq> []" and "set sel \<subseteq> set (columns (active_numeric st ds))"
  shows "\<exists>fig sub z.
           update_correlation_heatmap st ds (Some sel) cs = Inr fig
           \<and> getitem_list (active_numeric st ds) sel = Inr sub
           \<and> z = corr_values (corr sub)
           \<and> fig_data fig = Heatmap z sel sel cs True
           \<and> heatmap_x fig = sel \<and> heatmap_y fig = sel
           \<and> length z = length sel
           \<and> (\<forall>i < length sel. length (z ! i) = length sel)
           \<and> (\<forall>i < length sel. \<forall>j < length sel. z ! i ! j = z ! j ! i)
           \<and> (\<forall>i < length sel.
                 z ! i ! i = (if is_constant (col_values (sub ! i)) then None else Some 1))
           \<and> (\<forall>i < length sel. \<forall>j < length sel.
                 z ! i ! j = None \<longleftrightarrow>
                   is_constant (map fst (valid_pairs (sub ! i) (sub ! j)))
                   \<or> is_constant (map snd (valid_pairs (sub ! i) (sub ! j))))"
proof -
  from assms(1) obtain k ks where sel: "sel = k # ks" by (cases sel) auto
  then have eff: "effective_columns (active_numeric st ds) (Some sel) = sel"
    by (simp add: effective_columns_def)
  from heatmap_of_subset [OF assms, of cs] obtain sub where
    sub: "getitem_list (active_numeric st ds) sel = Inr sub" and
    len: "length sub = length sel" and
    hm: "heatmap_of (active_numeric st ds) sel cs
           = Inr \<lparr>fig_data = Heatmap (corr_values (corr sub)) sel sel cs True,
                  fig_title = None, xaxis_title = None, yaxis_title = None,
                  fig_layout = []\<rparr>"
    by blast
  let ?z = "corr_values (corr sub)"
  let ?fig = "\<lparr>fig_data = Heatmap ?z sel sel cs True,
                fig_title = None, xaxis_title = None, yaxis_title = None,
                fig_layout = []\<rparr>"
  have view: "update_correlation_heatmap st ds (Some sel) cs = Inr ?fig"
    by (simp add: heatmap_active eff hm)
  have lab: "heatmap_x ?fig = sel" "heatmap_y ?fig = sel"
    by (simp_all add: heatmap_x_def heatmap_y_def)
  have shape: "length ?z = length sel" "\<forall>i < length sel. length (?z ! i) = length sel"
    using len by (simp_all add: corr_def)
  have sym: "\<forall>i < length sel. \<forall>j < length sel. ?z ! i ! j = ?z ! j ! i"
    using len by (simp add: corr_values_nth corr_entry_sym [of "sub ! _" "sub ! _"])
  have diag: "\<forall>i < length sel.
                 ?z ! i ! i = (if is_constant (col_values (sub ! i)) then None else Some 1)"
    using len by (simp add: corr_values_nth corr_entry_diag)
  have und: "\<forall>i < length sel. \<forall>j < length sel.
                 ?z ! i ! j = None \<longleftrightarrow>
                   is_constant (map fst (valid_pairs (sub ! i) (sub ! j)))
                   \<or> is_constant (map snd (valid_pairs (sub ! i) (sub ! j)))"
    using len by (simp add: corr_values_nth corr_entry_None_iff)
  from view sub lab shape sym diag und show ?thesis
    by (intro exI [of _ ?fig] exI [of _ sub] exI [of _ ?z]) simp
qed

theorem correlation_matrix_symmetric_unit_diagonal_witness:
  "[''POSTCODE'', ''TOTAL1''] \<noteq> []
   \<and> set [''POSTCODE'', ''TOTAL1'']
       \<subseteq> set (columns (active_numeric (load ex_vehicle ex_transport ex_bike) (Some ''vehicle'')))
   \<and> (\<exists>fig z. update_correlation_heatmap (load ex_vehicle ex_transport ex_bike)
                 (Some ''vehicle'') (Some [''POSTCODE'', ''TOTAL1'']) (Some Viridis) = Inr fig
         \<and> fig_data fig
             = Heatmap z [''POSTCODE'', ''TOTAL1''] [''POSTCODE'', ''TOTAL1''] (Some Viridis) True
         \<and> z ! 0 ! 0 = Some 1 \<and> z ! 1 ! 1 = Some 1 \<and> z ! 0 ! 1 = z ! 1 ! 0)
   \<and> [''POSTCODE''] \<noteq> []
   \<and> set [''POSTCODE'']
       \<subseteq> set (columns (active_numeric (load ex_vehicle_nototal ex_transport ex_bike)
                          (Some ''vehicle'')))
   \<and> (\<exists>fig z. update_correlation_heatmap (load ex_vehicle_nototal ex_transport ex_bike)
                 (Some ''vehicle'') (Some [''POSTCODE'']) (Some Viridis) = Inr fig
         \<and> fig_data fig = Heatmap z [''POSTCODE''] [''POSTCODE''] (Some Viridis) True
         \<and> z ! 0 ! 0 = None)"
proof -
  let ?p = "\<lparr>cname = ''POSTCODE'', ctype = Int64, cells = [IntV 3000, IntV 3000, IntV 3001]\<rparr>"
  let ?t = "\<lparr>cname = ''TOTAL1'', ctype = Int64, cells = [IntV 10, IntV 5, IntV 7]\<rparr>"
  let ?q = "\<lparr>cname = ''POSTCODE'', ctype = Int64, cells = [IntV 3000]\<rparr>"
  let ?st = "load ex_vehicle ex_transport ex_bike"
  let ?st' = "load ex_vehicle_nototal ex_transport ex_bike"
  have num: "active_numeric ?st (Some ''vehicle'') = [?p, ?t]"
    by (simp add: active_numeric_def load_def select_dtypes_def fillna_def fillna_column_def
          ex_vehicle_def)
  have num': "active_numeric ?st' (Some ''vehicle'') = [?q]"
    by (simp add: active_numeric_def load_def select_dtypes_def fillna_def fillna_column_def
          ex_vehicle_nototal_def)
  have a: "[''POSTCODE'', ''TOTAL1''] \<noteq> []" by simp
  have b: "set [''POSTCODE'', ''TOTAL1''] \<subseteq> set (columns (active_numeric ?st (Some ''vehicle'')))"
    by (simp add: num columns_def)
  have a': "[''POSTCODE''] \<noteq> []" by simp
  have b': "set [''POSTCODE''] \<subseteq> set (columns (active_numeric ?st' (Some ''vehicle'')))"
    by (simp add: num' columns_def)
  have nc: "\<not> is_constant (col_values ?p)" "\<not> is_constant (col_values ?t)"
    "is_constant (col_values ?q)"
    by (simp_all add: col_values_def num_of_def is_constant_def)
  from correlation_matrix_symmetric_unit_diagonal [OF a b, of "Some Viridis"]
  obtain fig sub z where
    v: "update_correlation_heatmap ?st (Some ''vehicle'') (Some [''POSTCODE'', ''TOTAL1''])
          (Some Viridis) = Inr fig"
    and s: "getitem_list (active_numeric ?st (Some ''vehicle'')) [''POSTCODE'', ''TOTAL1'']
              = Inr sub"
    and d: "fig_data fig
              = Heatmap z [''POSTCODE'', ''TOTAL1''] [''POSTCODE'', ''TOTAL1''] (Some Viridis) True"
    and sym: "\<forall>i < length [''POSTCODE'', ''TOTAL1'']. \<forall>j < length [''POSTCODE'', ''TOTAL1''].
                z ! i ! j = z ! j ! i"
    and diag: "\<forall>i < length [''POSTCODE'', ''TOTAL1''].
                 z ! i ! i = (if is_constant (col_values (sub ! i)) then None else Some 1)"
    by blast
  from s have sub: "sub = [?p, ?t]" by (simp add: num)
  from diag have "z ! 0 ! 0 = (if is_constant (col_values (sub ! 0)) then None else Some 1)"
    by simp
  then have z00: "z ! 0 ! 0 = Some 1" using nc by (simp add: sub)
  from diag have "z ! 1 ! 1 = (if is_constant (col_values (sub ! 1)) then None else Some 1)"
    by simp
  then have z11: "z ! 1 ! 1 = Some 1" using nc by (simp add: sub)
  from sym have z01: "z ! 0 ! 1 = z ! 1 ! 0" by simp
  from v d z00 z11 z01 have first:
    "\<exists>fig z. update_correlation_heatmap ?st (Some ''vehicle'') (Some [''POSTCODE'', ''TOTAL1''])
                (Some Viridis) = Inr fig
         \<and> fig_data fig
             = Heatmap z [''POSTCODE'', ''TOTAL1''] [''POSTCODE'', ''TOTAL1''] (Some Viridis) True
         \<and> z ! 0 ! 0 = Some 1 \<and> z ! 1 ! 1 = Some 1 \<and> z ! 0 ! 1 = z ! 1 ! 0"
    by blast
  from correlation_matrix_symmetric_unit_diagonal [OF a' b', of "Some Viridis"]
  obtain fig' sub' z' where
    v': "update_correlation_heatmap ?st' (Some ''vehicle'') (Some [''POSTCODE''])
          (Some Viridis) = Inr fig'"
    and s': "getitem_list (active_numeric ?st' (Some ''vehicle'')) [''POSTCODE''] = Inr sub'"
    and d': "fig_data fig' = Heatmap z' [''POSTCODE''] [''POSTCODE''] (Some Viridis) True"
    and diag': "\<forall>i < length [''POSTCODE''].
                 z' ! i ! i = (if is_constant (col_values (sub' ! i)) then None else Some 1)"
    by blast
  from s' have sub': "sub' = [?q]" by (simp add: num')
  from diag' have "z' ! 0 ! 0 = (if is_constant (col_values (sub' ! 0)) then None else Some 1)"
    by simp
  then have "z' ! 0 ! 0 = None" using nc by (simp add: sub')
  with v' d' have second:
    "\<exists>fig z. update_correlation_heatmap ?st' (Some ''vehicle'') (Some [''POSTCODE''])
                (Some Viridis) = Inr fig
         \<and> fig_data fig = Heatmap z [''POSTCODE''] [''POSTCODE''] (Some Viridis) True
         \<and> z ! 0 ! 0 = None"
    by blast
  from a b first a' b' second show ?thesis by blast
qed

end
